theory Spec2Isabelle
  imports Complex_Main
begin

section \<open>JavaScript values and strings\<close>

text \<open>
  The scripts are JavaScript. A number is modelled by its exact rational value, with the
  three non-finite numbers beside it; the rounding of a decimal literal to the nearest
  binary64 value is not modelled, and \<open>-0\<close> is \<open>0\<close>. Nor is the range of binary64:
  a literal too large for it (\<open>1e400\<close>) is \<open>Infinity\<close> in JavaScript and a literal
  too small (\<open>1e-400\<close>) is 0, while here both keep their rational value; and two
  literals that round to the same binary64 value (\<open>15.5\<close> and
  \<open>15.50000000000000001\<close>, or \<open>16\<close> and \<open>16.0000000000000001\<close>) are different
  numbers here. At a literal of this kind a theorem below speaks of the model only, not
  of the program; the inputs evaluated below have at most eight significant digits and
  no exponent. The four bounds of the bounding box (14.5, 16, 73.5, 74.5) are binary64
  values themselves.

  A field of a record holds a string or a number, or is absent (\<open>Undefined\<close>); a JSON
  \<open>null\<close> field behaves as an absent one in every read the scripts make. A record
  (a JavaScript object) is the list of its entries in the order \<open>Object.entries\<close>
  lists them.
\<close>

datatype jsnum = NaN | Fin rat | PosInfinity | NegInfinity

datatype jsval = Undefined | Str string | Num jsnum

type_synonym row = "(string \<times> jsval) list"

definition getp :: "row \<Rightarrow> string \<Rightarrow> jsval" where
  "getp r k = (case map_of r k of None \<Rightarrow> Undefined | Some v \<Rightarrow> v)"

text \<open>\<open>!v\<close> is false exactly on the truthy values.\<close>

fun truthy :: "jsval \<Rightarrow> bool" where
  "truthy Undefined = False"
| "truthy (Str s) = (s \<noteq> [])"
| "truthy (Num NaN) = False"
| "truthy (Num (Fin q)) = (q \<noteq> 0)"
| "truthy (Num _) = True"

text \<open>\<open>a || b\<close>\<close>

definition js_or :: "jsval \<Rightarrow> jsval \<Rightarrow> jsval" where
  "js_or a b = (if truthy a then a else b)"

subsection \<open>String builtins\<close>

text \<open>
  Strings are byte lists. White space is the ASCII white space (space, tab, line feed,
  vertical tab, form feed, carriage return); the Unicode spaces that \<open>trim\<close> and
  \<open>parseFloat\<close> also skip are not modelled.
\<close>

definition is_ws :: "char \<Rightarrow> bool" where
  "is_ws c = (c \<in> set [CHR '' '', CHR 0x09, CHR 0x0A, CHR 0x0B, CHR 0x0C, CHR 0x0D])"

definition is_digit :: "char \<Rightarrow> bool" where
  "is_digit c = (c \<in> set ''0123456789'')"


fun startsWith :: "string \<Rightarrow> string \<Rightarrow> bool" where
  "startsWith s [] = True"
| "startsWith [] (p # ps) = False"
| "startsWith (c # cs) (p # ps) = (c = p \<and> startsWith cs ps)"


fun str_includes :: "string \<Rightarrow> string \<Rightarrow> bool" where
  "str_includes [] p = (p = [])"
| "str_includes (c # cs) p = (startsWith (c # cs) p \<or> str_includes cs p)"


text \<open>\<open>s.replace(',', '.')\<close> replaces the first comma only.\<close>

fun replace_comma :: "string \<Rightarrow> string" where
  "replace_comma [] = []"
| "replace_comma (c # cs) = (if c = CHR '','' then CHR ''.'' # cs else c # replace_comma cs)"


definition lower_char :: "char \<Rightarrow> char" where
  "lower_char c =
     (case map_of (zip ''ABCDEFGHIJKLMNOPQRSTUVWXYZ'' ''abcdefghijklmnopqrstuvwxyz'') c of
        None \<Rightarrow> c
      | Some l \<Rightarrow> l)"

definition toLowerCase :: "string \<Rightarrow> string" where
  "toLowerCase s = map lower_char s"

subsection \<open>parseFloat\<close>

text \<open>
  \<open>parseFloat\<close> skips leading white space and reads the longest prefix that is a
  decimal literal: an optional sign, then \<open>Infinity\<close>, or digits with an optional
  fraction and an optional exponent. With no such prefix the result is \<open>NaN\<close>.
\<close>

definition digit_val :: "char \<Rightarrow> nat" where
  "digit_val c = of_char c - 48"

definition digits_val :: "string \<Rightarrow> nat" where
  "digits_val ds = foldl (\<lambda>a c. 10 * a + digit_val c) 0 ds"

definition scale10 :: "rat \<Rightarrow> int \<Rightarrow> rat" where
  "scale10 m e = (if 0 \<le> e then m * 10 ^ nat e else m / 10 ^ nat (- e))"

definition exponent_part :: "string \<Rightarrow> int" where
  "exponent_part s =
     (case s of
        [] \<Rightarrow> 0
      | c # r \<Rightarrow>
          if c = CHR ''e'' \<or> c = CHR ''E'' then
            (case r of
               [] \<Rightarrow> 0
             | d # r' \<Rightarrow>
                 if d = CHR ''-'' then
                   (if takeWhile is_digit r' = [] then 0
                    else - int (digits_val (takeWhile is_digit r')))
                 else if d = CHR ''+'' then int (digits_val (takeWhile is_digit r'))
                 else int (digits_val (takeWhile is_digit r)))
          else 0)"

definition unsigned_literal :: "string \<Rightarrow> rat option" where
  "unsigned_literal u =
     (let ip = takeWhile is_digit u;
          r1 = dropWhile is_digit u;
          fp = (case r1 of [] \<Rightarrow> [] | c # r \<Rightarrow> if c = CHR ''.'' then takeWhile is_digit r else []);
          r2 = (case r1 of [] \<Rightarrow> [] | c # r \<Rightarrow> if c = CHR ''.'' then dropWhile is_digit r else r1)
      in if ip = [] \<and> fp = [] then None
         else Some (scale10 (of_nat (digits_val (ip @ fp))) (exponent_part r2 - int (length fp))))"

definition parseFloat_str :: "string \<Rightarrow> jsnum" where
  "parseFloat_str s =
     (let t = dropWhile is_ws s;
          neg = startsWith t ''-'';
          u = (if startsWith t ''-'' \<or> startsWith t ''+'' then tl t else t)
      in if startsWith u ''Infinity'' then (if neg then NegInfinity else PosInfinity)
         else (case unsigned_literal u of
                 None \<Rightarrow> NaN
               | Some q \<Rightarrow> Fin (if neg then - q else q)))"

text \<open>
  \<open>parseFloat(v)\<close> first converts \<open>v\<close> to a string. A number converts to a
  literal that reads back as the same number, so \<open>parseFloat\<close> returns a number
  unchanged; \<open>undefined\<close> converts to a string that is no literal.
\<close>

fun parseFloat :: "jsval \<Rightarrow> jsnum" where
  "parseFloat Undefined = NaN"
| "parseFloat (Str s) = parseFloat_str s"
| "parseFloat (Num n) = n"

text \<open>\<open>parseFloat(v.toString().replace(',', '.'))\<close>, for a truthy \<open>v\<close>.\<close>

fun parse_clean :: "jsval \<Rightarrow> jsnum" where
  "parse_clean Undefined = NaN"
| "parse_clean (Str s) = parseFloat_str (replace_comma s)"
| "parse_clean (Num n) = n"

section \<open>The Coordinate Resolver (fetch-data.js, index.js)\<close>

datatype coord_type = Lat | Lng | Unspecified

definition in_lat :: "rat \<Rightarrow> bool" where
  "in_lat q = (14.5 \<le> q \<and> q \<le> 16.0)"

definition in_lng :: "rat \<Rightarrow> bool" where
  "in_lng q = (73.5 \<le> q \<and> q \<le> 74.5)"

text \<open>The comparisons of \<open>isValidGoaCoordinate\<close> on a number that is not \<open>NaN\<close>.\<close>

fun num_in_range :: "jsnum \<Rightarrow> coord_type \<Rightarrow> bool" where
  "num_in_range (Fin q) Lat = in_lat q"
| "num_in_range (Fin q) Lng = in_lng q"
| "num_in_range (Fin q) Unspecified = (in_lat q \<or> in_lng q)"
| "num_in_range _ _ = False"

definition isValidGoaCoordinate :: "jsval \<Rightarrow> coord_type \<Rightarrow> bool" where
  "isValidGoaCoordinate v ty =
     (if \<not> truthy v then False
      else let num = (case v of Num n \<Rightarrow> n | _ \<Rightarrow> parse_clean v)
           in if num = NaN then False else num_in_range num ty)"

text \<open>
  The result of \<open>extractCoordinates\<close>: \<open>{ valid: false }\<close>, or
  \<open>{ valid: true, lat, lng, source }\<close>.
\<close>

datatype extraction = Invalid | Valid jsnum jsnum string

definition slash :: "string \<Rightarrow> string \<Rightarrow> string" where
  "slash a b = a @ ''/'' @ b"

subsection \<open>Strategy 0: the two known vehicles\<close>

definition vehicle_0308 :: string where
  "vehicle_0308 = ''GA 07 G 0308-FFHQ(QUICK RESPONSE)''"

definition vehicle_0350 :: string where
  "vehicle_0350 = ''GA 07 G 0350-PNJ(WATER TENDER)''"

text \<open>
  One special case: \<open>lat = parseFloat(row[latField] || latDefault)\<close>, likewise
  \<open>lng\<close>, and the test of both numbers. \<open>None\<close> is falling out of the
  \<open>if\<close> block without a \<open>return\<close>.
\<close>

definition special_case ::
  "row \<Rightarrow> string \<Rightarrow> string \<Rightarrow> string \<Rightarrow> string \<Rightarrow> string \<Rightarrow> extraction option" where
  "special_case r latField latDefault lngField lngDefault src =
     (let lat = parseFloat (js_or (getp r latField) (Str latDefault));
          lng = parseFloat (js_or (getp r lngField) (Str lngDefault))
      in if lat \<noteq> NaN \<and> lng \<noteq> NaN \<and> isValidGoaCoordinate (Num lat) Lat
            \<and> isValidGoaCoordinate (Num lng) Lng
         then Some (Valid lat lng src) else None)"

definition special_0308 :: "row \<Rightarrow> extraction option" where
  "special_0308 r =
     (if getp r ''Vehicle_No'' = Str vehicle_0308
      then special_case r ''Door1'' ''15.486755'' ''Door2'' ''73.817429'' ''special_case_Door1_Door2''
      else None)"

definition special_0350 :: "row \<Rightarrow> extraction option" where
  "special_0350 r =
     (if getp r ''Vehicle_No'' = Str vehicle_0350
      then special_case r ''IGN'' ''15.0236433'' ''Power'' ''74.04406'' ''special_case_IGN_Power''
      else None)"

subsection \<open>Strategy 1: the known field pairs\<close>

definition known_pair :: "row \<Rightarrow> string \<Rightarrow> string \<Rightarrow> extraction option" where
  "known_pair r latField lngField =
     (if isValidGoaCoordinate (getp r latField) Lat \<and> isValidGoaCoordinate (getp r lngField) Lng
      then Some (Valid (parseFloat (getp r latField)) (parseFloat (getp r lngField))
                   (slash latField lngField))
      else None)"

subsection \<open>Strategy 2: the scan over adjacent location fields\<close>

definition locationFields :: "string list" where
  "locationFields = [''Location'', ''POI'', ''Datetime'', ''Latitude'', ''Longitude'', ''Status'', ''Speed'']"

text \<open>One round of the loop, for the fields at \<open>i\<close> and \<open>i + 1\<close>: the pair it pushes, if any.\<close>

definition window_pair :: "row \<Rightarrow> string \<Rightarrow> string \<Rightarrow> extraction option" where
  "window_pair r field1 field2 =
     (if \<not> truthy (getp r field1) \<or> \<not> truthy (getp r field2) then None
      else let val1 = parseFloat (getp r field1); val2 = parseFloat (getp r field2)
           in if val1 \<noteq> NaN \<and> val2 \<noteq> NaN then
                (if isValidGoaCoordinate (Num val1) Lat \<and> isValidGoaCoordinate (Num val2) Lng
                 then Some (Valid val1 val2 (slash field1 field2))
                 else if isValidGoaCoordinate (Num val1) Lng \<and> isValidGoaCoordinate (Num val2) Lat
                 then Some (Valid val2 val1 (slash field2 field1))
                 else None)
              else None)"

fun coordPairs :: "row \<Rightarrow> string list \<Rightarrow> extraction list" where
  "coordPairs r (field1 # field2 # fs) =
     (case window_pair r field1 field2 of
        None \<Rightarrow> coordPairs r (field2 # fs)
      | Some p \<Rightarrow> p # coordPairs r (field2 # fs))"
| "coordPairs r fs = []"

subsection \<open>Strategy 3: the scan of every field\<close>

record scan_state =
  bestLat :: "jsnum option"
  bestLng :: "jsnum option"
  latConfidence :: nat
  lngConfidence :: nat
  latField :: string
  lngField :: string

definition scan_init :: scan_state where
  "scan_init = \<lparr> bestLat = None, bestLng = None, latConfidence = 0, lngConfidence = 0,
                 latField = [], lngField = [] \<rparr>"

definition lat_confidence :: "string \<Rightarrow> nat" where
  "lat_confidence field =
     (if str_includes (toLowerCase field) ''lat'' then 10
      else if field = ''IGN'' \<or> field = ''Door1'' then 8 else 5)"

definition lng_confidence :: "string \<Rightarrow> nat" where
  "lng_confidence field =
     (if str_includes (toLowerCase field) ''lon'' then 10
      else if field = ''Power'' \<or> field = ''Door2'' then 8 else 5)"

definition scan_lat :: "string \<Rightarrow> jsnum \<Rightarrow> scan_state \<Rightarrow> scan_state" where
  "scan_lat field num st =
     (if isValidGoaCoordinate (Num num) Lat \<and> lat_confidence field > latConfidence st
      then st\<lparr> bestLat := Some num, latConfidence := lat_confidence field, latField := field \<rparr>
      else st)"

definition scan_lng :: "string \<Rightarrow> jsnum \<Rightarrow> scan_state \<Rightarrow> scan_state" where
  "scan_lng field num st =
     (if isValidGoaCoordinate (Num num) Lng \<and> lng_confidence field > lngConfidence st
      then st\<lparr> bestLng := Some num, lngConfidence := lng_confidence field, lngField := field \<rparr>
      else st)"

text \<open>The body of the loop over \<open>Object.entries(row)\<close>.\<close>

definition scan_entry :: "scan_state \<Rightarrow> string \<times> jsval \<Rightarrow> scan_state" where
  "scan_entry st e =
     (if \<not> truthy (snd e) then st
      else let num = parse_clean (snd e)
           in if num = NaN then st
              else scan_lng (fst e) num (scan_lat (fst e) num st))"

definition scan_row :: "row \<Rightarrow> scan_state" where
  "scan_row r = foldl scan_entry scan_init r"

definition confidence_scan :: "row \<Rightarrow> extraction" where
  "confidence_scan r =
     (let st = scan_row r
      in case (bestLat st, bestLng st) of
           (Some la, Some lo) \<Rightarrow> Valid la lo (slash (latField st) (lngField st))
         | _ \<Rightarrow> Invalid)"

text \<open>
  The entries that the scan takes for a latitude or a longitude: those that pass the tests
  of the loop body before the scores are compared.
\<close>

definition lat_candidate :: "string \<times> jsval \<Rightarrow> bool" where
  "lat_candidate e = (truthy (snd e) \<and> parse_clean (snd e) \<noteq> NaN
                       \<and> isValidGoaCoordinate (Num (parse_clean (snd e))) Lat)"

definition lng_candidate :: "string \<times> jsval \<Rightarrow> bool" where
  "lng_candidate e = (truthy (snd e) \<and> parse_clean (snd e) \<noteq> NaN
                       \<and> isValidGoaCoordinate (Num (parse_clean (snd e))) Lng)"

text \<open>
  \<open>first_best P c xs i\<close>: the entry at \<open>i\<close> satisfies \<open>P\<close>, no entry that
  satisfies \<open>P\<close> has a higher score \<open>c\<close>, and every such entry before \<open>i\<close> has a
  lower one.
\<close>

definition first_best :: "('a \<Rightarrow> bool) \<Rightarrow> ('a \<Rightarrow> nat) \<Rightarrow> 'a list \<Rightarrow> nat \<Rightarrow> bool" where
  "first_best P c xs i =
     (i < length xs \<and> P (xs ! i)
      \<and> (\<forall>k < length xs. P (xs ! k) \<longrightarrow> c (xs ! k) \<le> c (xs ! i))
      \<and> (\<forall>k < i. P (xs ! k) \<longrightarrow> c (xs ! k) < c (xs ! i)))"

subsection \<open>The cascade\<close>

text \<open>Strategies 2 and 3, then strategies 1 to 3: what follows a block that did not return.\<close>

definition scan_strategies :: "row \<Rightarrow> extraction" where
  "scan_strategies r =
     (case coordPairs r locationFields of
        bestPair # _ \<Rightarrow> bestPair
      | [] \<Rightarrow> confidence_scan r)"

definition general_strategies :: "row \<Rightarrow> extraction" where
  "general_strategies r =
     (case known_pair r ''Door1'' ''Door2'' of
        Some c \<Rightarrow> c
      | None \<Rightarrow>
          (case known_pair r ''IGN'' ''Power'' of
             Some c \<Rightarrow> c
           | None \<Rightarrow> scan_strategies r))"

definition extractCoordinates :: "row \<Rightarrow> extraction" where
  "extractCoordinates r =
     (case special_0308 r of
        Some c \<Rightarrow> c
      | None \<Rightarrow>
          (case special_0350 r of
             Some c \<Rightarrow> c
           | None \<Rightarrow> general_strategies r))"

section \<open>The CSV parser (fetch-data.js)\<close>



subsection \<open>Property assignment\<close>

text \<open>
  \<open>row[key] = v\<close> on a plain object. An own key keeps its place; a new key that is an
  array index (the decimal form of an integer below \<open>2^32 - 1\<close>) is listed among
  the index keys in ascending order, before every other key; any other new key is listed
  last. Assigning a string or a number to \<open>__proto__\<close> changes nothing.
\<close>

definition is_array_index :: "string \<Rightarrow> bool" where
  "is_array_index k =
     (k \<noteq> [] \<and> list_all is_digit k \<and> (k = ''0'' \<or> hd k \<noteq> CHR ''0'')
      \<and> digits_val k < 4294967295)"

fun update_own :: "string \<Rightarrow> jsval \<Rightarrow> row \<Rightarrow> row" where
  "update_own k v [] = []"
| "update_own k v (e # r) = (if fst e = k then (k, v) # r else e # update_own k v r)"

fun insert_index :: "string \<Rightarrow> jsval \<Rightarrow> row \<Rightarrow> row" where
  "insert_index k v [] = [(k, v)]"
| "insert_index k v (e # r) =
     (if is_array_index (fst e) \<and> digits_val (fst e) < digits_val k
      then e # insert_index k v r else (k, v) # e # r)"

definition set_prop :: "row \<Rightarrow> string \<Rightarrow> jsval \<Rightarrow> row" where
  "set_prop r k v =
     (if k = ''__proto__'' then r
      else if map_of r k \<noteq> None then update_own k v r
      else if is_array_index k then insert_index k v r
      else r @ [(k, v)])"

subsection \<open>One data line\<close>






subsection \<open>The loop over the lines\<close>




section \<open>The Snapshot Writer (rowsToGeoJSON and the result object)\<close>

text \<open>
  A feature of the snapshot: \<open>geometry.coordinates = [Longitude, Latitude]\<close> and the
  remaining fields of the row as \<open>properties\<close>.
\<close>

record point_feature =
  point :: "jsval \<times> jsval"
  properties :: row

record snapshot =
  snap_type :: string
  timestamp :: string
  snap_source :: string
  snap_count :: nat
  snap_features :: "point_feature list"

definition source_label :: string where
  "source_label = ''Directorate of Fire Emergency Services, Govt. of Goa''"

definition to_feature :: "row \<Rightarrow> point_feature" where
  "to_feature r =
     \<lparr> point = (getp r ''Longitude'', getp r ''Latitude''),
       properties = filter (\<lambda>e. fst e \<noteq> ''Latitude'' \<and> fst e \<noteq> ''Longitude'') r \<rparr>"

definition make_snapshot :: "string \<Rightarrow> row list \<Rightarrow> snapshot" where
  "make_snapshot now rows =
     \<lparr> snap_type = ''FeatureCollection'', timestamp = now, snap_source = source_label,
       snap_count = length rows, snap_features = map to_feature rows \<rparr>"

section \<open>The Track Accumulator (updateDailyGpxTracks)\<close>

text \<open>
  The descriptive fields of a record (\<open>Vehicle_No\<close>, \<open>Vehicle_Name\<close>,
  \<open>Branch\<close>, \<open>Datetime\<close>) are strings in both feeds. The Accumulator treats an
  absent and an empty field alike (\<open>!vehicleId\<close>, \<open>|| ''\<close>,
  \<open>|| new Date().toISOString()\<close>), so the model reads such a field as a string
  that is empty when the field is absent; a number in one of these fields is outside
  the model. A coordinate of a track is a number.
\<close>

definition str_field :: "row \<Rightarrow> string \<Rightarrow> string" where
  "str_field r k = (case getp r k of Str s \<Rightarrow> s | _ \<Rightarrow> [])"

text \<open>
  A feature of a track file: its properties and \<open>geometry.coordinates\<close>, the points
  as \<open>[longitude, latitude]\<close>. A feature without properties or without a vehicle
  number has the empty \<open>Vehicle_No\<close>: the Accumulator never finds it again.
\<close>

record track_feature =
  Vehicle_No :: string
  Vehicle_Name :: string
  Branch :: string
  created :: string
  lastUpdated :: string
  coordinates :: "(jsnum \<times> jsnum) list"

text \<open>
  A collection of tracks: its \<open>type\<close>, the metadata \<open>date\<close>, \<open>source\<close>,
  \<open>description\<close>, \<open>lastUpdated\<close> and \<open>count\<close> (the last two are set by the
  first write), and the features.
\<close>

record daily_track =
  track_type :: string
  date :: string
  track_source :: string
  description :: string
  md_lastUpdated :: "string option"
  md_count :: "nat option"
  features :: "track_feature list"

text \<open>
  What reading and parsing a file gives: a text that \<open>JSON.parse\<close> rejects (or a
  read that fails), a collection of tracks of the shape the Accumulator writes, or
  \<open>OtherJson\<close>, a JSON value without a list of features. A list of features of
  another shape is not modelled. A file is named by the name \<open>getGpxFilename\<close> gives
  it; the directory is fixed. A write that fails is not modelled.
\<close>

datatype file_content = Unparseable | Tracks daily_track | OtherJson

type_synonym store = "string \<rightharpoonup> file_content"

datatype event =
    LoadedExisting string
  | ErrorReadingExisting
  | CreatingNew string
  | UpdatedTracks nat
  | ErrorUpdating

definition getGpxFilename :: "string \<Rightarrow> string" where
  "getGpxFilename d = ''goa-fire-trucks-gpx-'' @ d @ ''.geojson''"

definition isValidCoordinate :: "jsnum \<Rightarrow> bool" where
  "isValidCoordinate v = (case v of Fin q \<Rightarrow> True | _ \<Rightarrow> False)"

text \<open>\<open>a !== b\<close> on numbers: \<open>NaN\<close> differs from every number, itself included.\<close>

definition strict_neq :: "jsnum \<Rightarrow> jsnum \<Rightarrow> bool" where
  "strict_neq a b = (a = NaN \<or> b = NaN \<or> a \<noteq> b)"

text \<open>
  \<open>vehicleTrackMap\<close> is a plain object used as a dictionary. Assigning a number to
  its key \<open>__proto__\<close> stores nothing; and once it has an own key
  \<open>hasOwnProperty\<close>, holding a number, the call
  \<open>vehicleTrackMap.hasOwnProperty(vehicleId)\<close> raises a TypeError.
\<close>

type_synonym track_map = "string \<rightharpoonup> nat"

definition map_assign :: "track_map \<Rightarrow> string \<Rightarrow> nat \<Rightarrow> track_map" where
  "map_assign m k i = (if k = ''__proto__'' then m else m(k \<mapsto> i))"

text \<open>The \<open>features.forEach\<close> that builds the map, from the feature at \<open>index\<close> on.\<close>

fun build_map :: "track_feature list \<Rightarrow> nat \<Rightarrow> track_map \<Rightarrow> track_map" where
  "build_map [] index m = m"
| "build_map (feature # fs) index m =
     build_map fs (Suc index)
       (if Vehicle_No feature \<noteq> [] then map_assign m (Vehicle_No feature) index else m)"

record track_state =
  st_features :: "track_feature list"
  vehicleTrackMap :: track_map

text \<open>
  The body of \<open>trucks.forEach\<close>. \<open>None\<close> is an exception, which leaves
  \<open>updateDailyGpxTracks\<close> through its \<open>catch\<close> block.
\<close>

definition update_truck :: "string \<Rightarrow> track_state \<Rightarrow> row \<Rightarrow> track_state option" where
  "update_truck now st truck =
     (let vehicleId = str_field truck ''Vehicle_No'';
          timestamp = (if str_field truck ''Datetime'' \<noteq> [] then str_field truck ''Datetime'' else now);
          coords = (parseFloat (getp truck ''Longitude''), parseFloat (getp truck ''Latitude''))
      in if vehicleId = [] \<or> \<not> isValidCoordinate (fst coords) \<or> \<not> isValidCoordinate (snd coords)
         then Some st
         else if vehicleTrackMap st ''hasOwnProperty'' \<noteq> None then None
         else (case vehicleTrackMap st vehicleId of
                 Some featureIndex \<Rightarrow>
                   if featureIndex < length (st_features st) then
                     (let feature = st_features st ! featureIndex;
                          existingCoords = coordinates feature
                      in if existingCoords = []
                            \<or> strict_neq (fst (last existingCoords)) (fst coords)
                            \<or> strict_neq (snd (last existingCoords)) (snd coords)
                         then Some (st\<lparr> st_features := (st_features st)[featureIndex :=
                                 feature\<lparr> coordinates := existingCoords @ [coords],
                                          lastUpdated := timestamp \<rparr>] \<rparr>)
                         else Some st)
                   else None
               | None \<Rightarrow>
                   Some \<lparr> st_features = st_features st @
                            [\<lparr> Vehicle_No = vehicleId,
                               Vehicle_Name = str_field truck ''Vehicle_Name'',
                               Branch = str_field truck ''Branch'',
                               created = timestamp, lastUpdated = timestamp,
                               coordinates = [coords] \<rparr>],
                          vehicleTrackMap = map_assign (vehicleTrackMap st) vehicleId
                                              (length (st_features st)) \<rparr>))"

fun update_trucks :: "string \<Rightarrow> track_state \<Rightarrow> row list \<Rightarrow> track_state option" where
  "update_trucks now st [] = Some st"
| "update_trucks now st (truck # trucks) =
     (case update_truck now st truck of
        None \<Rightarrow> None
      | Some st' \<Rightarrow> update_trucks now st' trucks)"

definition fresh_tracks :: "string \<Rightarrow> daily_track" where
  "fresh_tracks today =
     \<lparr> track_type = ''FeatureCollection'', date = today, track_source = source_label,
       description = ''Daily GPS tracks of fire trucks'',
       md_lastUpdated = None, md_count = None, features = [] \<rparr>"

text \<open>
  The load of the day's file: the collection to go on with, or \<open>None\<close> where the
  parsed value has no list of features and the first use of it raises; and the line
  written to the log.
\<close>

definition load_tracks :: "string \<Rightarrow> store \<Rightarrow> daily_track option \<times> event" where
  "load_tracks today files =
     (case files (getGpxFilename today) of
        None \<Rightarrow> (Some (fresh_tracks today), CreatingNew today)
      | Some Unparseable \<Rightarrow> (Some (fresh_tracks today), ErrorReadingExisting)
      | Some (Tracks t) \<Rightarrow> (Some t, LoadedExisting today)
      | Some OtherJson \<Rightarrow> (None, LoadedExisting today))"

text \<open>
  \<open>updateDailyGpxTracks(trucks)\<close>, with what it reads from the clock: \<open>today\<close> as
  \<open>yyyyMMdd\<close> and \<open>now\<close> as an ISO timestamp (one reading of the clock serves the
  whole call). It returns the path of the file, or \<open>None\<close> for \<open>null\<close>, with
  the files and the lines of the log about the load and the outcome; the line about a
  skipped record is left out of the log.
\<close>

definition updateDailyGpxTracks ::
  "string \<Rightarrow> string \<Rightarrow> row list \<Rightarrow> store \<Rightarrow> string option \<times> store \<times> event list" where
  "updateDailyGpxTracks today now trucks files =
     (case load_tracks today files of
        (None, ev) \<Rightarrow> (None, files, [ev, ErrorUpdating])
      | (Some tracksGeoJson, ev) \<Rightarrow>
          (case update_trucks now
                  \<lparr> st_features = features tracksGeoJson,
                    vehicleTrackMap = build_map (features tracksGeoJson) 0 Map.empty \<rparr> trucks of
             None \<Rightarrow> (None, files, [ev, ErrorUpdating])
           | Some st \<Rightarrow>
               (Some (getGpxFilename today),
                files(getGpxFilename today \<mapsto>
                  Tracks (tracksGeoJson\<lparr> features := st_features st,
                                         md_lastUpdated := Some now,
                                         md_count := Some (length (st_features st)) \<rparr>)),
                [ev, UpdatedTracks (length (st_features st))])))"

subsection \<open>Reading the day's tracks\<close>

text \<open>The features in the file of the day; none where the file is absent or holds no tracks.\<close>

definition day_features :: "store \<Rightarrow> string \<Rightarrow> track_feature list" where
  "day_features fs d = (case fs (getGpxFilename d) of Some (Tracks t) \<Rightarrow> features t | _ \<Rightarrow> [])"

text \<open>
  \<open>grown_without_repeat old new\<close>: \<open>new\<close> is \<open>old\<close> with points appended, and no
  appended point equals the point right before it.
\<close>

definition grown_without_repeat :: "'a list \<Rightarrow> 'a list \<Rightarrow> bool" where
  "grown_without_repeat old new =
     (length old \<le> length new \<and> take (length old) new = old
      \<and> (\<forall>j \<in> {length old ..< length new}. 0 < j \<longrightarrow> new ! j \<noteq> new ! (j - 1)))"

text \<open>The points of the feature at an index; none beyond the end of the list.\<close>

definition coords_at :: "track_feature list \<Rightarrow> nat \<Rightarrow> (jsnum \<times> jsnum) list" where
  "coords_at fs i = (if i < length fs then coordinates (fs ! i) else [])"

definition tracks_grown :: "track_feature list \<Rightarrow> track_feature list \<Rightarrow> bool" where
  "tracks_grown old new =
     (length old \<le> length new
      \<and> (\<forall>i \<in> {..< length new}. grown_without_repeat (coords_at old i) (coords_at new i)))"

text \<open>A point, as \<open>[longitude, latitude]\<close>, that passes the range check; tracks of such points.\<close>

definition point_in_box :: "jsnum \<times> jsnum \<Rightarrow> bool" where
  "point_in_box p = (num_in_range (snd p) Lat \<and> num_in_range (fst p) Lng)"

definition tracks_in_box :: "track_feature list \<Rightarrow> bool" where
  "tracks_in_box fs = list_all (\<lambda>f. list_all point_in_box (coordinates f)) fs"


section \<open>The Fetch Orchestrator (index.js, the track creator and the main script)\<close>

text \<open>
  The parsed response of the API. An array in it is an array of flat records; this is
  the shape of every array the scripts look for.
\<close>

datatype json =
    JNull
  | JBool bool
  | JNum jsnum
  | JStr string
  | JArray "row list"
  | JObject "(string \<times> json) list"

fun json_truthy :: "json \<Rightarrow> bool" where
  "json_truthy JNull = False"
| "json_truthy (JBool b) = b"
| "json_truthy (JNum n) = truthy (Num n)"
| "json_truthy (JStr s) = (s \<noteq> [])"
| "json_truthy (JArray rs) = True"
| "json_truthy (JObject kvs) = True"

text \<open>
  \<open>v.key\<close>. A missing property reads as \<open>undefined\<close>, which every test of the
  chain below treats as it treats \<open>null\<close>; so it is \<open>JNull\<close> here. The chain
  reads a property only of a value that it found truthy before.
\<close>

fun prop_of :: "json \<Rightarrow> string \<Rightarrow> json" where
  "prop_of (JObject kvs) k = (case map_of kvs k of None \<Rightarrow> JNull | Some v \<Rightarrow> v)"
| "prop_of _ k = JNull"

fun isArray :: "json \<Rightarrow> bool" where
  "isArray (JArray rs) = True"
| "isArray _ = False"

text \<open>The value that the chain of tests assigns to \<open>rows\<close>.\<close>

definition locate_rows :: "json \<Rightarrow> json" where
  "locate_rows jsonData =
     (if json_truthy jsonData \<and> json_truthy (prop_of jsonData ''root'')
         \<and> json_truthy (prop_of (prop_of jsonData ''root'') ''VehicleData'')
      then prop_of (prop_of jsonData ''root'') ''VehicleData''
      else if json_truthy jsonData \<and> isArray jsonData then jsonData
      else if json_truthy jsonData \<and> json_truthy (prop_of jsonData ''data'')
      then (if isArray (prop_of jsonData ''data'') then prop_of jsonData ''data''
            else if json_truthy (prop_of (prop_of jsonData ''data'') ''VehicleData'')
            then prop_of (prop_of jsonData ''data'') ''VehicleData''
            else JArray [])
      else JArray [])"

text \<open>
  \<open>if (row.Latitude) row.Latitude = parseFloat(row.Latitude)\<close>, and the same for
  \<open>Longitude\<close>. The rows are changed in place, so \<open>parsedFireTrucks\<close>, which is
  the same array, holds the changed rows.
\<close>

definition numeric_field :: "string \<Rightarrow> row \<Rightarrow> row" where
  "numeric_field k r =
     (if truthy (getp r k) then set_prop r k (Num (parseFloat (getp r k))) else r)"

definition numeric_coordinates :: "row \<Rightarrow> row" where
  "numeric_coordinates r = numeric_field ''Longitude'' (numeric_field ''Latitude'' r)"

definition has_valid_coordinates :: "row \<Rightarrow> bool" where
  "has_valid_coordinates r =
     (isValidGoaCoordinate (getp r ''Latitude'') Lat
      \<and> isValidGoaCoordinate (getp r ''Longitude'') Lng)"

record world =
  disk :: store
  output_file :: "snapshot option"
  parsedFireTrucks :: "row list"
  debug_log :: "event list"

text \<open>
  \<open>fetchAndCacheData\<close> of index.js, from the parsed response on (a request that
  fails ends the run before). The first component is the returned \<open>validRows\<close>, or
  \<open>None\<close> where an exception reaches the \<open>catch\<close> block and the process exits
  with status 1: \<open>rows.forEach\<close> on a value that is no array. \<open>output_file\<close>
  is the snapshot file, \<open>disk\<close> holds the track files.
\<close>

definition fetchAndCacheData ::
  "string \<Rightarrow> string \<Rightarrow> json \<Rightarrow> world \<Rightarrow> row list option \<times> world" where
  "fetchAndCacheData today now jsonData w =
     (case locate_rows jsonData of
        JArray rows0 \<Rightarrow>
          (let rows = map numeric_coordinates rows0;
               validRows = filter has_valid_coordinates rows;
               (gpxFilePath, files', evs) = updateDailyGpxTracks today now validRows (disk w)
           in (Some validRows,
               \<lparr> disk = files', output_file = Some (make_snapshot now validRows),
                 parsedFireTrucks = rows, debug_log = debug_log w @ evs \<rparr>))
      | _ \<Rightarrow> (None, w))"

text \<open>
  \<open>createDailyTracks\<close> of the track creator: it takes \<open>parsedFireTrucks\<close> when
  that is not empty and fetches otherwise (\<open>jsonData\<close> is the response such a fetch
  gets). \<open>False\<close> is the exit with status 1.
\<close>

definition createDailyTracks :: "string \<Rightarrow> string \<Rightarrow> json \<Rightarrow> world \<Rightarrow> bool \<times> world" where
  "createDailyTracks today now jsonData w =
     (case (if length (parsedFireTrucks w) > 0 then (Some (parsedFireTrucks w), w)
            else fetchAndCacheData today now jsonData w) of
        (None, w') \<Rightarrow> (False, w')
      | (Some trucks, w') \<Rightarrow>
          (let (gpxFilePath, files', evs) = updateDailyGpxTracks today now trucks (disk w')
           in (True, w'\<lparr> disk := files', debug_log := debug_log w' @ evs \<rparr>)))"

text \<open>The main script: \<open>await fetchAndCacheData(); await createDailyTracks();\<close>\<close>

definition main_run :: "string \<Rightarrow> string \<Rightarrow> json \<Rightarrow> world \<Rightarrow> bool \<times> world" where
  "main_run today now jsonData w =
     (case fetchAndCacheData today now jsonData w of
        (None, w') \<Rightarrow> (False, w')
      | (Some validRows, w') \<Rightarrow> createDailyTracks today now jsonData w')"

section \<open>Properties of the Coordinate Resolver\<close>

subsection \<open>Evaluation and basic facts\<close>

lemmas str_eval = is_ws_def is_digit_def digits_val_def digit_val_def scale10_def
  exponent_part_def unsigned_literal_def parseFloat_str_def

lemmas resolver_eval = getp_def js_or_def isValidGoaCoordinate_def in_lat_def in_lng_def
  special_case_def special_0308_def special_0350_def known_pair_def window_pair_def
  locationFields_def slash_def vehicle_0308_def vehicle_0350_def
  general_strategies_def scan_strategies_def extractCoordinates_def
  confidence_scan_def scan_row_def scan_entry_def scan_init_def scan_lat_def scan_lng_def
  lat_confidence_def lng_confidence_def toLowerCase_def lower_char_def

lemma isValid_Num: "isValidGoaCoordinate (Num n) ty = num_in_range n ty"
  by (cases n; cases ty) (auto simp: isValidGoaCoordinate_def in_lat_def in_lng_def)

lemma num_in_range_not_NaN: "num_in_range n ty \<Longrightarrow> n \<noteq> NaN"
  by (cases n) auto

lemma special_case_eq:
  "special_case r lf ld gf gd src =
     (let la = parseFloat (js_or (getp r lf) (Str ld)); lo = parseFloat (js_or (getp r gf) (Str gd))
      in if num_in_range la Lat \<and> num_in_range lo Lng then Some (Valid la lo src) else None)"
  by (auto simp: special_case_def isValid_Num Let_def dest: num_in_range_not_NaN)

lemma vehicles_differ: "vehicle_0308 \<noteq> vehicle_0350"
  by (simp add: vehicle_0308_def vehicle_0350_def)

lemma pf_samples:
  "parseFloat_str ''15.5'' = Fin (155 / 10)" "parseFloat_str ''15.6'' = Fin (156 / 10)"
  "parseFloat_str ''73.9'' = Fin (739 / 10)" "parseFloat_str ''74'' = Fin 74"
  by (simp_all add: str_eval)

lemma parseFloat_str_Nil: "parseFloat_str [] = NaN"
  by (simp add: str_eval)

lemma in_range_truthy: "num_in_range (parseFloat v) ty \<Longrightarrow> truthy v"
  by (cases v; cases ty) (auto simp: parseFloat_str_Nil in_lat_def in_lng_def elim: num_in_range.elims)


subsection \<open>The known-vehicle overrides\<close>

text \<open>
  Claim C1, as the code has it. For a record of one of the two known vehicles the
  Resolver reads each override field with \<open>parseFloat\<close>, taking the built-in default
  of that vehicle where the field is absent or empty. It returns this pair as the
  override exactly when the latitude lies in [14.5, 16] and the longitude in
  [73.5, 74.5]; otherwise it returns what the later strategies return.
\<close>

theorem override_applies_iff_in_box:
  "(getp r ''Vehicle_No'' = Str vehicle_0308 \<longrightarrow>
      extractCoordinates r =
        (let la = parseFloat (js_or (getp r ''Door1'') (Str ''15.486755''));
             lo = parseFloat (js_or (getp r ''Door2'') (Str ''73.817429''))
         in if num_in_range la Lat \<and> num_in_range lo Lng
            then Valid la lo ''special_case_Door1_Door2''
            else general_strategies r))
   \<and> (getp r ''Vehicle_No'' = Str vehicle_0350 \<longrightarrow>
      extractCoordinates r =
        (let la = parseFloat (js_or (getp r ''IGN'') (Str ''15.0236433''));
             lo = parseFloat (js_or (getp r ''Power'') (Str ''74.04406''))
         in if num_in_range la Lat \<and> num_in_range lo Lng
            then Valid la lo ''special_case_IGN_Power''
            else general_strategies r))"
  using vehicles_differ
  by (auto simp: extractCoordinates_def special_0308_def special_0350_def special_case_eq Let_def)

theorem override_applies_iff_in_box_witness:
  "getp [(''Vehicle_No'', Str vehicle_0308), (''Door1'', Str ''99''), (''Door2'', Str ''73.9'')]
       ''Vehicle_No'' = Str vehicle_0308
   \<and> extractCoordinates
         [(''Vehicle_No'', Str vehicle_0308), (''Door1'', Str ''99''), (''Door2'', Str ''73.9'')]
       = general_strategies
         [(''Vehicle_No'', Str vehicle_0308), (''Door1'', Str ''99''), (''Door2'', Str ''73.9'')]
   \<and> getp [(''Vehicle_No'', Str vehicle_0350), (''IGN'', Str ''15.2''), (''Power'', Str ''74.1'')]
       ''Vehicle_No'' = Str vehicle_0350
   \<and> extractCoordinates
         [(''Vehicle_No'', Str vehicle_0350), (''IGN'', Str ''15.2''), (''Power'', Str ''74.1'')]
       = Valid (Fin (152 / 10)) (Fin (741 / 10)) ''special_case_IGN_Power''"
  using override_applies_iff_in_box
          [of "[(''Vehicle_No'', Str vehicle_0308), (''Door1'', Str ''99''), (''Door2'', Str ''73.9'')]"]
        override_applies_iff_in_box
          [of "[(''Vehicle_No'', Str vehicle_0350), (''IGN'', Str ''15.2''), (''Power'', Str ''74.1'')]"]
  by (simp add: getp_def js_or_def str_eval in_lat_def in_lng_def)


text \<open>
  Claim C1 as stated fails where both override fields are absent: the later strategies
  find nothing in the record below, yet the Resolver returns the built-in default
  coordinates of the vehicle.
\<close>

theorem absent_override_fields_counterexample:
  "getp [(''Vehicle_No'', Str vehicle_0308)] ''Door1'' = Undefined
   \<and> getp [(''Vehicle_No'', Str vehicle_0308)] ''Door2'' = Undefined
   \<and> general_strategies [(''Vehicle_No'', Str vehicle_0308)] = Invalid
   \<and> extractCoordinates [(''Vehicle_No'', Str vehicle_0308)]
       = Valid (Fin (15486755 / 1000000)) (Fin (73817429 / 1000000)) ''special_case_Door1_Door2''"
  by (simp add: resolver_eval str_eval)


subsection \<open>Decimal commas\<close>

text \<open>
  A direct call of the Resolver on a record with decimal commas. Both values pass
  \<open>isValidGoaCoordinate\<close>, which reads a decimal comma as a decimal point, and
  strategy 1 then returns \<open>parseFloat\<close> of the raw strings: 15 and 73 in place of
  15.486755 and 73.817429. The longitude returned lies outside the bounding box. No
  script calls the Resolver on such a record: \<open>parseFiretruckCSV\<close> splits every
  line at its commas.
\<close>

lemma comma_pair_direct_call:
  "extractCoordinates [(''Door1'', Str ''15,486755''), (''Door2'', Str ''73,817429'')]
     = Valid (Fin 15) (Fin 73) ''Door1/Door2''
   \<and> parse_clean (Str ''15,486755'') = Fin (15486755 / 1000000)
   \<and> parse_clean (Str ''73,817429'') = Fin (73817429 / 1000000)
   \<and> \<not> num_in_range (Fin 73) Lng"
  by (simp add: resolver_eval str_eval)


subsection \<open>The conventional fields\<close>

text \<open>
  Claim C6, as the code has it. When no strategy of higher priority fires (no override
  of a known vehicle, neither known field pair, no pair from the windows Location/POI,
  POI/Datetime and Datetime/Latitude) and \<open>parseFloat\<close> reads \<open>Latitude\<close> and
  \<open>Longitude\<close> as numbers within range, the Resolver returns exactly this pair.
\<close>

theorem conventional_pair_when_nothing_earlier:
  assumes "special_0308 r = None" and "special_0350 r = None"
    and "known_pair r ''Door1'' ''Door2'' = None" and "known_pair r ''IGN'' ''Power'' = None"
    and "window_pair r ''Location'' ''POI'' = None"
    and "window_pair r ''POI'' ''Datetime'' = None"
    and "window_pair r ''Datetime'' ''Latitude'' = None"
    and "num_in_range (parseFloat (getp r ''Latitude'')) Lat"
    and "num_in_range (parseFloat (getp r ''Longitude'')) Lng"
  shows "extractCoordinates r
         = Valid (parseFloat (getp r ''Latitude'')) (parseFloat (getp r ''Longitude''))
             ''Latitude/Longitude''"
proof -
  have w: "window_pair r ''Latitude'' ''Longitude''
           = Some (Valid (parseFloat (getp r ''Latitude'')) (parseFloat (getp r ''Longitude''))
                     ''Latitude/Longitude'')"
    using assms(8,9) in_range_truthy[OF assms(8)] in_range_truthy[OF assms(9)]
    by (auto simp: window_pair_def isValid_Num Let_def slash_def dest: num_in_range_not_NaN)
  show ?thesis
    using assms(1-7) w
    by (simp add: extractCoordinates_def general_strategies_def scan_strategies_def locationFields_def)
qed


theorem conventional_pair_when_nothing_earlier_witness:
  "special_0308 [(''Latitude'', Str ''15.5''), (''Longitude'', Str ''73.9'')] = None
   \<and> special_0350 [(''Latitude'', Str ''15.5''), (''Longitude'', Str ''73.9'')] = None
   \<and> known_pair [(''Latitude'', Str ''15.5''), (''Longitude'', Str ''73.9'')] ''Door1'' ''Door2'' = None
   \<and> known_pair [(''Latitude'', Str ''15.5''), (''Longitude'', Str ''73.9'')] ''IGN'' ''Power'' = None
   \<and> window_pair [(''Latitude'', Str ''15.5''), (''Longitude'', Str ''73.9'')] ''Location'' ''POI'' = None
   \<and> window_pair [(''Latitude'', Str ''15.5''), (''Longitude'', Str ''73.9'')] ''POI'' ''Datetime'' = None
   \<and> window_pair [(''Latitude'', Str ''15.5''), (''Longitude'', Str ''73.9'')] ''Datetime'' ''Latitude'' = None
   \<and> num_in_range (parseFloat (getp [(''Latitude'', Str ''15.5''), (''Longitude'', Str ''73.9'')] ''Latitude'')) Lat
   \<and> num_in_range (parseFloat (getp [(''Latitude'', Str ''15.5''), (''Longitude'', Str ''73.9'')] ''Longitude'')) Lng
   \<and> extractCoordinates [(''Latitude'', Str ''15.5''), (''Longitude'', Str ''73.9'')]
       = Valid (Fin (155 / 10)) (Fin (739 / 10)) ''Latitude/Longitude''"
proof -
  let ?r = "[(''Latitude'', Str ''15.5''), (''Longitude'', Str ''73.9'')]"
  have h: "special_0308 ?r = None" "special_0350 ?r = None"
      "known_pair ?r ''Door1'' ''Door2'' = None" "known_pair ?r ''IGN'' ''Power'' = None"
      "window_pair ?r ''Location'' ''POI'' = None" "window_pair ?r ''POI'' ''Datetime'' = None"
      "window_pair ?r ''Datetime'' ''Latitude'' = None"
    by (simp_all add: special_0308_def special_0350_def known_pair_def getp_def
          isValidGoaCoordinate_def window_pair_def)
  have g: "num_in_range (parseFloat (getp ?r ''Latitude'')) Lat"
      "num_in_range (parseFloat (getp ?r ''Longitude'')) Lng"
    by (simp_all add: getp_def pf_samples in_lat_def in_lng_def)
  from conventional_pair_when_nothing_earlier[OF h g] h g show ?thesis
    by (simp add: getp_def pf_samples)
qed

text \<open>
  Claim C6 as stated fails where an earlier strategy fires: the record below has a pair
  within range in \<open>Latitude\<close> and \<open>Longitude\<close>, and the Resolver returns the pair
  of \<open>Door1\<close> and \<open>Door2\<close>.
\<close>

theorem conventional_pair_counterexample:
  "isValidGoaCoordinate (getp [(''Latitude'', Str ''15.5''), (''Longitude'', Str ''73.9''),
                               (''Door1'', Str ''15.0''), (''Door2'', Str ''74.0'')] ''Latitude'') Lat
   \<and> isValidGoaCoordinate (getp [(''Latitude'', Str ''15.5''), (''Longitude'', Str ''73.9''),
                               (''Door1'', Str ''15.0''), (''Door2'', Str ''74.0'')] ''Longitude'') Lng
   \<and> parseFloat (Str ''15.5'') = Fin (155 / 10) \<and> parseFloat (Str ''73.9'') = Fin (739 / 10)
   \<and> extractCoordinates [(''Latitude'', Str ''15.5''), (''Longitude'', Str ''73.9''),
                          (''Door1'', Str ''15.0''), (''Door2'', Str ''74.0'')]
       = Valid (Fin 15) (Fin 74) ''Door1/Door2''"
  by (simp add: resolver_eval str_eval)


subsection \<open>The scan of every field\<close>

lemma lat_confidence_pos: "0 < lat_confidence f"
  by (simp add: lat_confidence_def)

lemma lng_confidence_pos: "0 < lng_confidence f"
  by (simp add: lng_confidence_def)

lemma scan_entry_lat:
  "bestLat (scan_entry st e) =
     (if lat_candidate e \<and> latConfidence st < lat_confidence (fst e)
      then Some (parse_clean (snd e)) else bestLat st)"
  "latConfidence (scan_entry st e) =
     (if lat_candidate e \<and> latConfidence st < lat_confidence (fst e)
      then lat_confidence (fst e) else latConfidence st)"
  "latField (scan_entry st e) =
     (if lat_candidate e \<and> latConfidence st < lat_confidence (fst e)
      then fst e else latField st)"
  by (auto simp: scan_entry_def scan_lat_def scan_lng_def lat_candidate_def Let_def)

lemma scan_entry_lng:
  "bestLng (scan_entry st e) =
     (if lng_candidate e \<and> lngConfidence st < lng_confidence (fst e)
      then Some (parse_clean (snd e)) else bestLng st)"
  "lngConfidence (scan_entry st e) =
     (if lng_candidate e \<and> lngConfidence st < lng_confidence (fst e)
      then lng_confidence (fst e) else lngConfidence st)"
  "lngField (scan_entry st e) =
     (if lng_candidate e \<and> lngConfidence st < lng_confidence (fst e)
      then fst e else lngField st)"
  by (auto simp: scan_entry_def scan_lat_def scan_lng_def lng_candidate_def Let_def)

lemma first_best_skip:
  assumes "first_best P c xs i" and "P x \<longrightarrow> c x \<le> c (xs ! i)"
  shows "first_best P c (xs @ [x]) i"
  using assms by (auto simp: first_best_def nth_append less_Suc_eq)

lemma first_best_take:
  assumes "P x" and "\<forall>k < length xs. P (xs ! k) \<longrightarrow> c (xs ! k) < c x"
  shows "first_best P c (xs @ [x]) (length xs)"
  using assms by (auto simp: first_best_def nth_append less_Suc_eq)

lemma first_best_bound:
  "first_best P c xs i \<Longrightarrow> k < length xs \<Longrightarrow> P (xs ! k) \<Longrightarrow> c (xs ! k) \<le> c (xs ! i)"
  by (simp add: first_best_def)

lemma scan_lat_invariant:
  "(if \<exists>e \<in> set xs. lat_candidate e
    then \<exists>i. first_best lat_candidate (\<lambda>e. lat_confidence (fst e)) xs i
             \<and> bestLat (foldl scan_entry scan_init xs) = Some (parse_clean (snd (xs ! i)))
             \<and> latField (foldl scan_entry scan_init xs) = fst (xs ! i)
             \<and> latConfidence (foldl scan_entry scan_init xs) = lat_confidence (fst (xs ! i))
    else bestLat (foldl scan_entry scan_init xs) = None
         \<and> latConfidence (foldl scan_entry scan_init xs) = 0)"
proof (induction xs rule: rev_induct)
  case Nil
  show ?case by (simp add: scan_init_def)
next
  case (snoc x xs)
  let ?st = "foldl scan_entry scan_init xs"
  let ?c = "\<lambda>e. lat_confidence (fst e)"
  show ?case
  proof (cases "\<exists>e \<in> set xs. lat_candidate e")
    case True
    with snoc obtain i where i: "first_best lat_candidate ?c xs i"
      "bestLat ?st = Some (parse_clean (snd (xs ! i)))" "latField ?st = fst (xs ! i)"
      "latConfidence ?st = ?c (xs ! i)"
      by auto
    have ilt: "i < length xs" using i(1) by (simp add: first_best_def)
    show ?thesis
    proof (cases "lat_candidate x \<and> latConfidence ?st < ?c x")
      case take: True
      have "\<forall>k < length xs. lat_candidate (xs ! k) \<longrightarrow> ?c (xs ! k) < ?c x"
        using first_best_bound[OF i(1)] take i(4) by fastforce
      with take have "first_best lat_candidate ?c (xs @ [x]) (length xs)"
        by (intro first_best_take) auto
      with take True show ?thesis
        by (auto simp: scan_entry_lat intro!: exI[of _ "length xs"])
    next
      case keep: False
      then have "lat_candidate x \<longrightarrow> ?c x \<le> ?c (xs ! i)" using i(4) by auto
      from first_best_skip[OF i(1) this] keep i ilt True show ?thesis
        by (auto simp: scan_entry_lat nth_append intro!: exI[of _ i])
    qed
  next
    case False
    with snoc have st: "bestLat ?st = None" "latConfidence ?st = 0" by auto
    show ?thesis
    proof (cases "lat_candidate x")
      case cand: True
      have "first_best lat_candidate ?c (xs @ [x]) (length xs)"
        using cand False by (intro first_best_take) auto
      with cand st lat_confidence_pos[of "fst x"] show ?thesis
        by (auto simp: scan_entry_lat intro!: exI[of _ "length xs"])
    next
      case nocand: False
      with False st show ?thesis by (auto simp: scan_entry_lat)
    qed
  qed
qed


lemma scan_lng_invariant:
  "(if \<exists>e \<in> set xs. lng_candidate e
    then \<exists>i. first_best lng_candidate (\<lambda>e. lng_confidence (fst e)) xs i
             \<and> bestLng (foldl scan_entry scan_init xs) = Some (parse_clean (snd (xs ! i)))
             \<and> lngField (foldl scan_entry scan_init xs) = fst (xs ! i)
             \<and> lngConfidence (foldl scan_entry scan_init xs) = lng_confidence (fst (xs ! i))
    else bestLng (foldl scan_entry scan_init xs) = None
         \<and> lngConfidence (foldl scan_entry scan_init xs) = 0)"
proof (induction xs rule: rev_induct)
  case Nil
  show ?case by (simp add: scan_init_def)
next
  case (snoc x xs)
  let ?st = "foldl scan_entry scan_init xs"
  let ?c = "\<lambda>e. lng_confidence (fst e)"
  show ?case
  proof (cases "\<exists>e \<in> set xs. lng_candidate e")
    case True
    with snoc obtain i where i: "first_best lng_candidate ?c xs i"
      "bestLng ?st = Some (parse_clean (snd (xs ! i)))" "lngField ?st = fst (xs ! i)"
      "lngConfidence ?st = ?c (xs ! i)"
      by auto
    have ilt: "i < length xs" using i(1) by (simp add: first_best_def)
    show ?thesis
    proof (cases "lng_candidate x \<and> lngConfidence ?st < ?c x")
      case take: True
      have "\<forall>k < length xs. lng_candidate (xs ! k) \<longrightarrow> ?c (xs ! k) < ?c x"
        using first_best_bound[OF i(1)] take i(4) by fastforce
      with take have "first_best lng_candidate ?c (xs @ [x]) (length xs)"
        by (intro first_best_take) auto
      with take True show ?thesis
        by (auto simp: scan_entry_lng intro!: exI[of _ "length xs"])
    next
      case keep: False
      then have "lng_candidate x \<longrightarrow> ?c x \<le> ?c (xs ! i)" using i(4) by auto
      from first_best_skip[OF i(1) this] keep i ilt True show ?thesis
        by (auto simp: scan_entry_lng nth_append intro!: exI[of _ i])
    qed
  next
    case False
    with snoc have st: "bestLng ?st = None" "lngConfidence ?st = 0" by auto
    show ?thesis
    proof (cases "lng_candidate x")
      case cand: True
      have "first_best lng_candidate ?c (xs @ [x]) (length xs)"
        using cand False by (intro first_best_take) auto
      with cand st lng_confidence_pos[of "fst x"] show ?thesis
        by (auto simp: scan_entry_lng intro!: exI[of _ "length xs"])
    next
      case nocand: False
      with False st show ?thesis by (auto simp: scan_entry_lng)
    qed
  qed
qed



lemma pf_scan_samples:
  "parseFloat_str ''73.6'' = Fin (736 / 10)" "parseFloat_str ''73.7'' = Fin (737 / 10)"
  "parseFloat_str ''15.1'' = Fin (151 / 10)" "parseFloat_str ''15.2'' = Fin (152 / 10)"
  "parseFloat_str ''15.7'' = Fin (157 / 10)"
  by (simp_all add: str_eval)


text \<open>
  Claim C5. When every earlier strategy fails and the record has a field that the scan
  takes for a latitude and one that it takes for a longitude, the Resolver returns a
  result; its latitude is read from the first field among the latitude candidates of
  the highest score, the score of a field being 10 with "lat" in the lower-cased name,
  8 for \<open>IGN\<close> and \<open>Door1\<close>, and 5 otherwise; its longitude is likewise read
  from the first among the longitude candidates of the highest score, the score being
  10 with "lon" in the lower-cased name, 8 for \<open>Power\<close> and \<open>Door2\<close>, and 5
  otherwise; and its source names these two fields. In the record of the example a
  field of score 5 and one of score 8 come before the field of score 10 on either
  side, and a second latitude field of score 10 comes after the first.
\<close>

theorem confidence_scan_picks_first_highest:
  assumes "special_0308 r = None" and "special_0350 r = None"
    and "known_pair r ''Door1'' ''Door2'' = None" and "known_pair r ''IGN'' ''Power'' = None"
    and "coordPairs r locationFields = []"
    and "\<exists>e \<in> set r. lat_candidate e" and "\<exists>e \<in> set r. lng_candidate e"
  shows "\<exists>i j. first_best lat_candidate
                 (\<lambda>e. if str_includes (toLowerCase (fst e)) ''lat'' then 10
                      else if fst e = ''IGN'' \<or> fst e = ''Door1'' then 8 else 5) r i
               \<and> first_best lng_candidate
                 (\<lambda>e. if str_includes (toLowerCase (fst e)) ''lon'' then 10
                      else if fst e = ''Power'' \<or> fst e = ''Door2'' then 8 else 5) r j
               \<and> extractCoordinates r
                   = Valid (parse_clean (snd (r ! i))) (parse_clean (snd (r ! j)))
                       (slash (fst (r ! i)) (fst (r ! j)))"
proof -
  from scan_lat_invariant[of r] assms(6) obtain i where
    i: "first_best lat_candidate (\<lambda>e. lat_confidence (fst e)) r i"
       "bestLat (scan_row r) = Some (parse_clean (snd (r ! i)))"
       "latField (scan_row r) = fst (r ! i)"
    by (auto simp: scan_row_def)
  from scan_lng_invariant[of r] assms(7) obtain j where
    j: "first_best lng_candidate (\<lambda>e. lng_confidence (fst e)) r j"
       "bestLng (scan_row r) = Some (parse_clean (snd (r ! j)))"
       "lngField (scan_row r) = fst (r ! j)"
    by (auto simp: scan_row_def)
  have "extractCoordinates r = confidence_scan r"
    using assms(1-5)
    by (simp add: extractCoordinates_def general_strategies_def scan_strategies_def)
  also have "\<dots> = Valid (parse_clean (snd (r ! i))) (parse_clean (snd (r ! j)))
                      (slash (fst (r ! i)) (fst (r ! j)))"
    using i(2,3) j(2,3) by (simp add: confidence_scan_def)
  finally show ?thesis
    using i(1)[unfolded lat_confidence_def] j(1)[unfolded lng_confidence_def] by blast
qed

theorem confidence_scan_picks_first_highest_witness:
  "special_0308 [(''x'', Str ''73.6''), (''Door2'', Str ''73.7''), (''Lon'', Str ''73,9''),
                 (''a'', Str ''15.1''), (''IGN'', Str ''15.2''), (''Lat'', Str ''15,6''),
                 (''Lat2'', Str ''15.7'')] = None
   \<and> special_0350 [(''x'', Str ''73.6''), (''Door2'', Str ''73.7''), (''Lon'', Str ''73,9''),
                 (''a'', Str ''15.1''), (''IGN'', Str ''15.2''), (''Lat'', Str ''15,6''),
                 (''Lat2'', Str ''15.7'')] = None
   \<and> known_pair [(''x'', Str ''73.6''), (''Door2'', Str ''73.7''), (''Lon'', Str ''73,9''),
                 (''a'', Str ''15.1''), (''IGN'', Str ''15.2''), (''Lat'', Str ''15,6''),
                 (''Lat2'', Str ''15.7'')] ''Door1'' ''Door2'' = None
   \<and> known_pair [(''x'', Str ''73.6''), (''Door2'', Str ''73.7''), (''Lon'', Str ''73,9''),
                 (''a'', Str ''15.1''), (''IGN'', Str ''15.2''), (''Lat'', Str ''15,6''),
                 (''Lat2'', Str ''15.7'')] ''IGN'' ''Power'' = None
   \<and> coordPairs [(''x'', Str ''73.6''), (''Door2'', Str ''73.7''), (''Lon'', Str ''73,9''),
                 (''a'', Str ''15.1''), (''IGN'', Str ''15.2''), (''Lat'', Str ''15,6''),
                 (''Lat2'', Str ''15.7'')] locationFields = []
   \<and> lat_candidate (''a'', Str ''15.1'') \<and> lng_candidate (''x'', Str ''73.6'')
   \<and> (\<exists>i j. first_best lat_candidate
                 (\<lambda>e. if str_includes (toLowerCase (fst e)) ''lat'' then 10
                      else if fst e = ''IGN'' \<or> fst e = ''Door1'' then 8 else 5)
                 [(''x'', Str ''73.6''), (''Door2'', Str ''73.7''), (''Lon'', Str ''73,9''),
                  (''a'', Str ''15.1''), (''IGN'', Str ''15.2''), (''Lat'', Str ''15,6''),
                  (''Lat2'', Str ''15.7'')] i
            \<and> first_best lng_candidate
                 (\<lambda>e. if str_includes (toLowerCase (fst e)) ''lon'' then 10
                      else if fst e = ''Power'' \<or> fst e = ''Door2'' then 8 else 5)
                 [(''x'', Str ''73.6''), (''Door2'', Str ''73.7''), (''Lon'', Str ''73,9''),
                  (''a'', Str ''15.1''), (''IGN'', Str ''15.2''), (''Lat'', Str ''15,6''),
                  (''Lat2'', Str ''15.7'')] j
            \<and> extractCoordinates
                 [(''x'', Str ''73.6''), (''Door2'', Str ''73.7''), (''Lon'', Str ''73,9''),
                  (''a'', Str ''15.1''), (''IGN'', Str ''15.2''), (''Lat'', Str ''15,6''),
                  (''Lat2'', Str ''15.7'')]
               = Valid (parse_clean (snd ([(''x'', Str ''73.6''), (''Door2'', Str ''73.7''),
                   (''Lon'', Str ''73,9''), (''a'', Str ''15.1''), (''IGN'', Str ''15.2''),
                   (''Lat'', Str ''15,6''), (''Lat2'', Str ''15.7'')] ! i)))
                  (parse_clean (snd ([(''x'', Str ''73.6''), (''Door2'', Str ''73.7''),
                   (''Lon'', Str ''73,9''), (''a'', Str ''15.1''), (''IGN'', Str ''15.2''),
                   (''Lat'', Str ''15,6''), (''Lat2'', Str ''15.7'')] ! j)))
                  (slash (fst ([(''x'', Str ''73.6''), (''Door2'', Str ''73.7''),
                   (''Lon'', Str ''73,9''), (''a'', Str ''15.1''), (''IGN'', Str ''15.2''),
                   (''Lat'', Str ''15,6''), (''Lat2'', Str ''15.7'')] ! i))
                         (fst ([(''x'', Str ''73.6''), (''Door2'', Str ''73.7''),
                   (''Lon'', Str ''73,9''), (''a'', Str ''15.1''), (''IGN'', Str ''15.2''),
                   (''Lat'', Str ''15,6''), (''Lat2'', Str ''15.7'')] ! j))))
   \<and> extractCoordinates
        [(''x'', Str ''73.6''), (''Door2'', Str ''73.7''), (''Lon'', Str ''73,9''),
         (''a'', Str ''15.1''), (''IGN'', Str ''15.2''), (''Lat'', Str ''15,6''),
         (''Lat2'', Str ''15.7'')]
       = Valid (Fin (156 / 10)) (Fin (739 / 10)) ''Lat/Lon''"
proof -
  let ?r = "[(''x'', Str ''73.6''), (''Door2'', Str ''73.7''), (''Lon'', Str ''73,9''),
             (''a'', Str ''15.1''), (''IGN'', Str ''15.2''), (''Lat'', Str ''15,6''),
             (''Lat2'', Str ''15.7'')]"
  have h: "special_0308 ?r = None" "special_0350 ?r = None"
      "known_pair ?r ''Door1'' ''Door2'' = None" "known_pair ?r ''IGN'' ''Power'' = None"
      "coordPairs ?r locationFields = []"
    by (simp_all add: special_0308_def special_0350_def known_pair_def getp_def
          isValidGoaCoordinate_def locationFields_def window_pair_def)
  have c: "lat_candidate (''a'', Str ''15.1'')" "lng_candidate (''x'', Str ''73.6'')"
    by (simp_all add: lat_candidate_def lng_candidate_def pf_scan_samples isValid_Num
          in_lat_def in_lng_def)
  have c': "\<exists>e \<in> set ?r. lat_candidate e" "\<exists>e \<in> set ?r. lng_candidate e"
    using c by simp_all
  have e: "extractCoordinates ?r = Valid (Fin (156 / 10)) (Fin (739 / 10)) ''Lat/Lon''"
    by (simp add: resolver_eval pf_samples pf_scan_samples)
  from confidence_scan_picks_first_highest[OF h c'] h c e show ?thesis
    by blast
qed

section \<open>Properties of the CSV parser\<close>








section \<open>Properties of the Track Accumulator\<close>

lemma strict_neq_valid:
  "isValidCoordinate b \<Longrightarrow> strict_neq a b = (a \<noteq> b)"
  by (cases b) (auto simp: strict_neq_def isValidCoordinate_def)

text \<open>
  Claim C10. When the vehicle of a record has a feature whose last point equals the
  point of the record, the Accumulator leaves the whole state as it is: no point is
  appended and \<open>lastUpdated\<close> keeps its value. (The one other outcome is the
  exception of a shadowed \<open>hasOwnProperty\<close>, after which nothing is written.)
\<close>

theorem equal_point_leaves_feature_unchanged:
  assumes "vehicleTrackMap st (str_field truck ''Vehicle_No'') = Some i"
    and "i < length (st_features st)"
    and "coordinates (st_features st ! i) \<noteq> []"
    and "last (coordinates (st_features st ! i))
         = (parseFloat (getp truck ''Longitude''), parseFloat (getp truck ''Latitude''))"
  shows "update_truck now st truck =
           (if str_field truck ''Vehicle_No'' \<noteq> []
               \<and> isValidCoordinate (parseFloat (getp truck ''Longitude''))
               \<and> isValidCoordinate (parseFloat (getp truck ''Latitude''))
               \<and> vehicleTrackMap st ''hasOwnProperty'' \<noteq> None
            then None else Some st)"
  using assms by (auto simp: update_truck_def Let_def strict_neq_valid)

theorem equal_point_leaves_feature_unchanged_witness:
  "vehicleTrackMap
      \<lparr> st_features = [\<lparr> Vehicle_No = ''V1'', Vehicle_Name = ''Tender'', Branch = ''Panaji'',
                           created = ''T0'', lastUpdated = ''T0'',
                           coordinates = [(Fin (739 / 10), Fin (155 / 10))] \<rparr>],
        vehicleTrackMap = [''V1'' \<mapsto> 0] \<rparr>
      (str_field [(''Vehicle_No'', Str ''V1''), (''Datetime'', Str ''T1''),
                  (''Latitude'', Num (Fin (155 / 10))), (''Longitude'', Num (Fin (739 / 10)))]
         ''Vehicle_No'') = Some 0
   \<and> update_truck ''T2''
        \<lparr> st_features = [\<lparr> Vehicle_No = ''V1'', Vehicle_Name = ''Tender'', Branch = ''Panaji'',
                             created = ''T0'', lastUpdated = ''T0'',
                             coordinates = [(Fin (739 / 10), Fin (155 / 10))] \<rparr>],
          vehicleTrackMap = [''V1'' \<mapsto> 0] \<rparr>
        [(''Vehicle_No'', Str ''V1''), (''Datetime'', Str ''T1''),
         (''Latitude'', Num (Fin (155 / 10))), (''Longitude'', Num (Fin (739 / 10)))]
       = Some \<lparr> st_features = [\<lparr> Vehicle_No = ''V1'', Vehicle_Name = ''Tender'', Branch = ''Panaji'',
                             created = ''T0'', lastUpdated = ''T0'',
                             coordinates = [(Fin (739 / 10), Fin (155 / 10))] \<rparr>],
                 vehicleTrackMap = [''V1'' \<mapsto> 0] \<rparr>"
  using equal_point_leaves_feature_unchanged
          [of "\<lparr> st_features = [\<lparr> Vehicle_No = ''V1'', Vehicle_Name = ''Tender'', Branch = ''Panaji'',
                             created = ''T0'', lastUpdated = ''T0'',
                             coordinates = [(Fin (739 / 10), Fin (155 / 10))] \<rparr>],
                 vehicleTrackMap = [''V1'' \<mapsto> 0] \<rparr>"
              "[(''Vehicle_No'', Str ''V1''), (''Datetime'', Str ''T1''),
                (''Latitude'', Num (Fin (155 / 10))), (''Longitude'', Num (Fin (739 / 10)))]"
              0 "''T2''"]
  by (simp add: str_field_def getp_def)


lemma upd_corrupt_as_absent:
  assumes "fs (getGpxFilename today) = Some Unparseable"
  shows "updateDailyGpxTracks today now trucks fs =
           (case updateDailyGpxTracks today now trucks (fs(getGpxFilename today := None)) of
              (None, f, evs) \<Rightarrow> (None, fs, ErrorReadingExisting # tl evs)
            | (Some p, f, evs) \<Rightarrow> (Some p, f, ErrorReadingExisting # tl evs))"
  using assms
  by (auto simp: updateDailyGpxTracks_def load_tracks_def split: option.splits)


lemma grown_refl: "grown_without_repeat a a"
  by (simp add: grown_without_repeat_def)

lemma grown_single: "grown_without_repeat [] [p]"
  by (simp add: grown_without_repeat_def)

lemma grown_snoc:
  assumes "grown_without_repeat a b" and "b = [] \<or> last b \<noteq> p"
  shows "grown_without_repeat a (b @ [p])"
proof -
  from assms(1) have le: "length a \<le> length b" and tk: "take (length a) b = a"
    and nr: "\<forall>j \<in> {length a ..< length b}. 0 < j \<longrightarrow> b ! j \<noteq> b ! (j - 1)"
    by (simp_all add: grown_without_repeat_def)
  have "(b @ [p]) ! j \<noteq> (b @ [p]) ! (j - 1)"
    if j: "length a \<le> j" "j < Suc (length b)" "0 < j" for j
  proof (cases "j < length b")
    case True
    with nr j have "b ! j \<noteq> b ! (j - 1)" by simp
    moreover from True have "j - 1 < length b" by simp
    ultimately show ?thesis using True by (simp add: nth_append)
  next
    case False
    with j have jb: "j = length b" by simp
    with j have "b \<noteq> []" by auto
    with assms(2) have "last b \<noteq> p" by simp
    with jb \<open>b \<noteq> []\<close> show ?thesis by (simp add: nth_append last_conv_nth)
  qed
  with le tk show ?thesis by (simp add: grown_without_repeat_def)
qed

lemma tracks_grown_refl: "tracks_grown fs fs"
  by (simp add: tracks_grown_def grown_refl)

lemma coords_at_snoc:
  "coords_at (fs @ [f]) i = (if i = length fs then coordinates f else coords_at fs i)"
  by (simp add: coords_at_def nth_append)

lemma coords_at_update:
  "i < length fs \<Longrightarrow>
   coords_at (fs[i := f]) k = (if k = i then coordinates f else coords_at fs k)"
  by (simp add: coords_at_def)

lemma coords_at_beyond: "length fs \<le> i \<Longrightarrow> coords_at fs i = []"
  by (simp add: coords_at_def)

lemma tracks_grown_new:
  assumes "tracks_grown fs0 fs" and "coordinates f = [p]"
  shows "tracks_grown fs0 (fs @ [f])"
  using assms
  by (auto simp: tracks_grown_def coords_at_snoc coords_at_beyond grown_single less_Suc_eq)

lemma tracks_grown_update:
  assumes "tracks_grown fs0 fs" and "i < length fs"
    and "coordinates f = coordinates (fs ! i) @ [p]"
    and "coordinates (fs ! i) = [] \<or> last (coordinates (fs ! i)) \<noteq> p"
  shows "tracks_grown fs0 (fs[i := f])"
proof -
  from assms(1,2) have "grown_without_repeat (coords_at fs0 i) (coords_at fs i)"
    by (simp add: tracks_grown_def)
  moreover from assms(2) have "coords_at fs i = coordinates (fs ! i)"
    by (simp add: coords_at_def)
  ultimately have "grown_without_repeat (coords_at fs0 i) (coordinates f)"
    using grown_snoc[of "coords_at fs0 i" "coordinates (fs ! i)" p] assms(3,4) by simp
  with assms(1,2) show ?thesis
    by (simp add: tracks_grown_def coords_at_update)
qed

lemma strict_neq_pair:
  assumes "isValidCoordinate (fst p)" and "isValidCoordinate (snd p)"
    and "strict_neq (fst q) (fst p) \<or> strict_neq (snd q) (snd p)"
  shows "q \<noteq> p"
  using assms by (auto simp: strict_neq_valid)

lemma update_truck_grown:
  assumes "update_truck now st truck = Some st'" and "tracks_grown fs0 (st_features st)"
  shows "tracks_grown fs0 (st_features st')"
proof -
  let ?p = "(parseFloat (getp truck ''Longitude''), parseFloat (getp truck ''Latitude''))"
  let ?v = "str_field truck ''Vehicle_No''"
  show ?thesis
  proof (cases "?v = [] \<or> \<not> isValidCoordinate (fst ?p) \<or> \<not> isValidCoordinate (snd ?p)")
    case True
    with assms show ?thesis by (auto simp: update_truck_def Let_def)
  next
    case valid: False
    show ?thesis
    proof (cases "vehicleTrackMap st ?v")
      case None
      with valid assms(1) have
        "\<exists>f. st_features st' = st_features st @ [f] \<and> coordinates f = [?p]"
        by (auto simp: update_truck_def Let_def split: if_splits)
      with assms(2) show ?thesis by (auto intro: tracks_grown_new)
    next
      case (Some i)
      let ?old = "coordinates (st_features st ! i)"
      from Some valid assms(1) have i: "i < length (st_features st)"
        by (auto simp: update_truck_def Let_def split: if_splits)
      show ?thesis
      proof (cases "?old = [] \<or> strict_neq (fst (last ?old)) (fst ?p)
                     \<or> strict_neq (snd (last ?old)) (snd ?p)")
        case True
        with Some valid i assms(1) have
          "\<exists>f. st_features st' = (st_features st)[i := f] \<and> coordinates f = ?old @ [?p]"
          by (auto simp: update_truck_def Let_def split: if_splits)
        moreover from True valid have "?old = [] \<or> last ?old \<noteq> ?p"
          using strict_neq_pair[of ?p "last ?old"] by auto
        ultimately show ?thesis
          using tracks_grown_update[OF assms(2) i] by auto
      next
        case False
        with Some valid i assms show ?thesis
          by (auto simp: update_truck_def Let_def split: if_splits)
      qed
    qed
  qed
qed

lemma update_trucks_grown:
  "update_trucks now st trucks = Some st' \<Longrightarrow> tracks_grown fs0 (st_features st)
   \<Longrightarrow> tracks_grown fs0 (st_features st')"
proof (induction trucks arbitrary: st)
  case Nil
  then show ?case by simp
next
  case (Cons truck trucks)
  then show ?case
    by (auto split: option.splits dest: update_truck_grown)
qed

lemma run_never_repeats:
  "tracks_grown (day_features fs today)
     (day_features (fst (snd (updateDailyGpxTracks today now trucks fs))) today)"
proof (cases "fst (updateDailyGpxTracks today now trucks fs)")
  case None
  then have "fst (snd (updateDailyGpxTracks today now trucks fs)) = fs"
    by (auto simp: updateDailyGpxTracks_def split: prod.splits option.splits)
  then show ?thesis by (simp add: tracks_grown_refl)
next
  case (Some path)
  then obtain t ev st where
    l: "load_tracks today fs = (Some t, ev)"
    and u: "update_trucks now \<lparr> st_features = features t,
              vehicleTrackMap = build_map (features t) 0 Map.empty \<rparr> trucks = Some st"
    and r: "day_features (fst (snd (updateDailyGpxTracks today now trucks fs))) today = st_features st"
    by (auto simp: updateDailyGpxTracks_def day_features_def split: prod.splits option.splits)
  from l have "tracks_grown (day_features fs today) (features t)"
    by (auto simp: load_tracks_def day_features_def fresh_tracks_def tracks_grown_refl
        split: option.splits file_content.splits)
  from update_trucks_grown[OF u] this r show ?thesis by simp
qed


text \<open>
  Two consecutive runs that each supply the same single record, with a vehicle number
  other than \<open>__proto__\<close> and a valid point, on a day that had no file, leave one
  feature, with one coordinate. (For the vehicle number \<open>hasOwnProperty\<close> the second
  run raises and leaves the file as the first run wrote it.)
\<close>

lemma two_runs_one_feature:
  assumes v: "str_field truck ''Vehicle_No'' \<noteq> []"
    and np: "str_field truck ''Vehicle_No'' \<noteq> ''__proto__''"
    and lo: "isValidCoordinate (parseFloat (getp truck ''Longitude''))"
    and la: "isValidCoordinate (parseFloat (getp truck ''Latitude''))"
    and absent: "fs (getGpxFilename today) = None"
  shows "day_features (fst (snd (updateDailyGpxTracks today now2 [truck]
            (fst (snd (updateDailyGpxTracks today now1 [truck] fs)))))) today
         = [\<lparr> Vehicle_No = str_field truck ''Vehicle_No'',
               Vehicle_Name = str_field truck ''Vehicle_Name'',
               Branch = str_field truck ''Branch'',
               created = (if str_field truck ''Datetime'' \<noteq> []
                          then str_field truck ''Datetime'' else now1),
               lastUpdated = (if str_field truck ''Datetime'' \<noteq> []
                              then str_field truck ''Datetime'' else now1),
               coordinates = [(parseFloat (getp truck ''Longitude''),
                               parseFloat (getp truck ''Latitude''))] \<rparr>]"
proof -
  let ?p = "(parseFloat (getp truck ''Longitude''), parseFloat (getp truck ''Latitude''))"
  let ?v = "str_field truck ''Vehicle_No''"
  let ?ts = "\<lambda>now. if str_field truck ''Datetime'' \<noteq> [] then str_field truck ''Datetime'' else now"
  let ?f = "\<lambda>now. \<lparr> Vehicle_No = ?v, Vehicle_Name = str_field truck ''Vehicle_Name'',
               Branch = str_field truck ''Branch'', created = ?ts now, lastUpdated = ?ts now,
               coordinates = [?p] \<rparr>"
  define fs1 where "fs1 = fst (snd (updateDailyGpxTracks today now1 [truck] fs))"
  have run1: "fs1 (getGpxFilename today)
              = Some (Tracks ((fresh_tracks today)\<lparr> features := [?f now1],
                    md_lastUpdated := Some now1, md_count := Some 1 \<rparr>))"
    using v lo la absent unfolding fs1_def
    by (simp add: updateDailyGpxTracks_def load_tracks_def fresh_tracks_def update_truck_def Let_def)
  have nn: "\<not> strict_neq (fst ?p) (fst ?p)" "\<not> strict_neq (snd ?p) (snd ?p)"
    using lo la by (simp_all add: strict_neq_valid)
  have "day_features (fst (snd (updateDailyGpxTracks today now2 [truck] fs1))) today
              = [?f now1]"
    using v np lo la nn
    by (simp add: day_features_def updateDailyGpxTracks_def load_tracks_def run1
          update_truck_def map_assign_def Let_def fresh_tracks_def)
  then show ?thesis unfolding fs1_def by simp
qed


lemma two_runs_one_feature_example:
  "day_features (fst (snd (updateDailyGpxTracks ''20250101'' ''T2''
      [[(''Vehicle_No'', Str ''V1''), (''Latitude'', Num (Fin (31 / 2))),
        (''Longitude'', Num (Fin (739 / 10)))]]
      (fst (snd (updateDailyGpxTracks ''20250101'' ''T1''
         [[(''Vehicle_No'', Str ''V1''), (''Latitude'', Num (Fin (31 / 2))),
           (''Longitude'', Num (Fin (739 / 10)))]] Map.empty)))))) ''20250101''
   = [\<lparr> Vehicle_No = ''V1'', Vehicle_Name = [], Branch = [], created = ''T1'',
         lastUpdated = ''T1'', coordinates = [(Fin (739 / 10), Fin (31 / 2))] \<rparr>]"
  using two_runs_one_feature
          [of "[(''Vehicle_No'', Str ''V1''), (''Latitude'', Num (Fin (31 / 2))),
                (''Longitude'', Num (Fin (739 / 10)))]" Map.empty "''20250101''" "''T2''" "''T1''"]
  by (simp add: str_field_def getp_def isValidCoordinate_def)


section \<open>Properties of the run\<close>

lemma locate_rows_none:
  assumes "\<not> json_truthy (prop_of (prop_of j ''root'') ''VehicleData'')"
    and "\<not> isArray j" and "\<not> isArray (prop_of j ''data'')"
    and "\<not> json_truthy (prop_of (prop_of j ''data'') ''VehicleData'')"
  shows "locate_rows j = JArray []"
  using assms by (simp add: locate_rows_def)

text \<open>
  A payload that holds no truthy value at \<open>root.VehicleData\<close>, is no array, and
  whose \<open>data\<close> is no array and holds no truthy \<open>VehicleData\<close>: the run has zero
  records and writes a FeatureCollection with no features and the count 0.
\<close>

lemma no_located_value_gives_empty_snapshot:
  assumes "\<not> json_truthy (prop_of (prop_of j ''root'') ''VehicleData'')"
    and "\<not> isArray j" and "\<not> isArray (prop_of j ''data'')"
    and "\<not> json_truthy (prop_of (prop_of j ''data'') ''VehicleData'')"
  shows "fst (fetchAndCacheData today now j w) = Some []
       \<and> output_file (snd (fetchAndCacheData today now j w))
           = Some \<lparr> snap_type = ''FeatureCollection'', timestamp = now,
                    snap_source = source_label, snap_count = 0, snap_features = [] \<rparr>"
  using locate_rows_none[OF assms]
  by (simp add: fetchAndCacheData_def make_snapshot_def split: prod.splits)

text \<open>
  A value at \<open>root.VehicleData\<close> that is truthy and no array is taken for the rows
  without a test; \<open>rows.forEach\<close> then raises, and the run ends with status 1 and
  everything as it was.
\<close>

lemma truthy_non_array_fatal:
  assumes "json_truthy (prop_of (prop_of j ''root'') ''VehicleData'')"
    and "\<not> isArray (prop_of (prop_of j ''root'') ''VehicleData'')"
  shows "fetchAndCacheData today now j w = (None, w)"
proof -
  have "json_truthy (prop_of j ''root'')" using assms(1) by (cases "prop_of j ''root''") auto
  moreover from this have "json_truthy j" by (cases j) auto
  ultimately have "locate_rows j = prop_of (prop_of j ''root'') ''VehicleData''"
    using assms(1) by (simp add: locate_rows_def)
  with assms(2) show ?thesis
    by (cases "prop_of (prop_of j ''root'') ''VehicleData''") (simp_all add: fetchAndCacheData_def)
qed

text \<open>
  Claim C7 at a failing input. The payload below has no array at any known location:
  none at \<open>root.VehicleData\<close>, none at the top level, none under \<open>data\<close>. The
  claim asks for a run that does not fail, with zero records and an empty snapshot of
  count 0. The run takes the string at \<open>root.VehicleData\<close> for the rows, raises at
  \<open>rows.forEach\<close>, and ends with status 1 before a snapshot is written.
\<close>

theorem truthy_non_array_ends_run:
  "\<not> isArray (prop_of (prop_of (JObject [(''root'', JObject [(''VehicleData'', JStr ''No Data Found'')])])
                  ''root'') ''VehicleData'')
   \<and> \<not> isArray (JObject [(''root'', JObject [(''VehicleData'', JStr ''No Data Found'')])])
   \<and> \<not> isArray (prop_of (JObject [(''root'', JObject [(''VehicleData'', JStr ''No Data Found'')])]) ''data'')
   \<and> \<not> isArray (prop_of (prop_of (JObject [(''root'', JObject [(''VehicleData'', JStr ''No Data Found'')])])
                  ''data'') ''VehicleData'')
   \<and> fst (fetchAndCacheData ''20250101'' ''T1''
             (JObject [(''root'', JObject [(''VehicleData'', JStr ''No Data Found'')])])
             \<lparr> disk = Map.empty, output_file = None, parsedFireTrucks = [], debug_log = [] \<rparr>)
       = None
   \<and> output_file (snd (fetchAndCacheData ''20250101'' ''T1''
             (JObject [(''root'', JObject [(''VehicleData'', JStr ''No Data Found'')])])
             \<lparr> disk = Map.empty, output_file = None, parsedFireTrucks = [], debug_log = [] \<rparr>))
       = None"
  by (simp add: fetchAndCacheData_def locate_rows_def)


subsection \<open>A decimal comma in the response\<close>

lemma pf_comma: "parseFloat_str ''15,5'' = Fin 15"
  by (simp add: str_eval)

text \<open>
  Claim C3 at a failing input: a response whose record has the latitude "15,5". The
  claim asks that the value be parsed as 15.5, which is how \<open>isValidGoaCoordinate\<close>
  reads the string. The run converts the field with \<open>parseFloat\<close> on the raw
  string, which stops at the comma: the record it returns, the snapshot and the track
  of the day all hold the latitude 15.
\<close>

theorem json_comma_latitude_evaluation:
  "isValidGoaCoordinate (Str ''15,5'') Lat
   \<and> parse_clean (Str ''15,5'') = Fin (31 / 2)
   \<and> fst (fetchAndCacheData ''20250101'' ''T1''
          (JObject [(''root'', JObject [(''VehicleData'',
             JArray [[(''Vehicle_No'', Str ''X''), (''Latitude'', Str ''15,5''),
                      (''Longitude'', Str ''73.9'')]])])])
          \<lparr> disk = Map.empty, output_file = None, parsedFireTrucks = [], debug_log = [] \<rparr>)
       = Some [[(''Vehicle_No'', Str ''X''), (''Latitude'', Num (Fin 15)),
                (''Longitude'', Num (Fin (739 / 10)))]]
   \<and> output_file (snd (fetchAndCacheData ''20250101'' ''T1''
          (JObject [(''root'', JObject [(''VehicleData'',
             JArray [[(''Vehicle_No'', Str ''X''), (''Latitude'', Str ''15,5''),
                      (''Longitude'', Str ''73.9'')]])])])
          \<lparr> disk = Map.empty, output_file = None, parsedFireTrucks = [], debug_log = [] \<rparr>))
       = Some \<lparr> snap_type = ''FeatureCollection'', timestamp = ''T1'',
                snap_source = source_label, snap_count = 1,
                snap_features = [\<lparr> point = (Num (Fin (739 / 10)), Num (Fin 15)),
                                    properties = [(''Vehicle_No'', Str ''X'')] \<rparr>] \<rparr>
   \<and> day_features (disk (snd (fetchAndCacheData ''20250101'' ''T1''
          (JObject [(''root'', JObject [(''VehicleData'',
             JArray [[(''Vehicle_No'', Str ''X''), (''Latitude'', Str ''15,5''),
                      (''Longitude'', Str ''73.9'')]])])])
          \<lparr> disk = Map.empty, output_file = None, parsedFireTrucks = [], debug_log = [] \<rparr>)))
        ''20250101''
       = [\<lparr> Vehicle_No = ''X'', Vehicle_Name = [], Branch = [], created = ''T1'',
             lastUpdated = ''T1'', coordinates = [(Fin (739 / 10), Fin 15)] \<rparr>]"
proof -
  let ?r = "[(''Vehicle_No'', Str ''X''), (''Latitude'', Str ''15,5''), (''Longitude'', Str ''73.9'')]"
  let ?n = "[(''Vehicle_No'', Str ''X''), (''Latitude'', Num (Fin 15)),
             (''Longitude'', Num (Fin (739 / 10)))]"
  let ?j = "JObject [(''root'', JObject [(''VehicleData'', JArray [?r])])]"
  let ?w0 = "\<lparr> disk = Map.empty, output_file = None, parsedFireTrucks = [], debug_log = [] \<rparr>"
  have a: "isValidGoaCoordinate (Str ''15,5'') Lat" "parse_clean (Str ''15,5'') = Fin (31 / 2)"
    by (simp_all add: isValidGoaCoordinate_def pf_samples in_lat_def)
  have loc: "locate_rows ?j = JArray [?r]"
    by (simp add: locate_rows_def)
  have num: "numeric_coordinates ?r = ?n"
    by (simp add: numeric_coordinates_def numeric_field_def getp_def set_prop_def pf_comma pf_samples)
  have val: "has_valid_coordinates ?n"
    by (simp add: has_valid_coordinates_def getp_def isValid_Num in_lat_def in_lng_def)
  have u: "updateDailyGpxTracks ''20250101'' ''T1'' [?n] Map.empty
           = (Some (getGpxFilename ''20250101''),
              [getGpxFilename ''20250101'' \<mapsto>
                 Tracks ((fresh_tracks ''20250101'')\<lparr> features :=
                    [\<lparr> Vehicle_No = ''X'', Vehicle_Name = [], Branch = [], created = ''T1'',
                        lastUpdated = ''T1'', coordinates = [(Fin (739 / 10), Fin 15)] \<rparr>],
                    md_lastUpdated := Some ''T1'', md_count := Some 1 \<rparr>)],
              [CreatingNew ''20250101'', UpdatedTracks 1])"
    by (simp add: updateDailyGpxTracks_def load_tracks_def fresh_tracks_def update_truck_def
          map_assign_def str_field_def getp_def isValidCoordinate_def Let_def)
  have f: "fetchAndCacheData ''20250101'' ''T1'' ?j ?w0
           = (Some [?n], \<lparr> disk = [getGpxFilename ''20250101'' \<mapsto>
                 Tracks ((fresh_tracks ''20250101'')\<lparr> features :=
                    [\<lparr> Vehicle_No = ''X'', Vehicle_Name = [], Branch = [], created = ''T1'',
                        lastUpdated = ''T1'', coordinates = [(Fin (739 / 10), Fin 15)] \<rparr>],
                    md_lastUpdated := Some ''T1'', md_count := Some 1 \<rparr>)],
               output_file = Some (make_snapshot ''T1'' [?n]), parsedFireTrucks = [?n],
               debug_log = [CreatingNew ''20250101'', UpdatedTracks 1] \<rparr>)"
    by (simp add: fetchAndCacheData_def loc num val u Let_def)
  show ?thesis
    unfolding f using a
    by (simp add: make_snapshot_def to_feature_def day_features_def getp_def)
qed


subsection \<open>A vehicle number that the track map cannot hold\<close>

text \<open>
  Claim C4 at a failing input: two consecutive runs whose response holds the same
  single record, of the vehicle number \<open>__proto__\<close>, on a day that had no file. The
  claim asks for a track of exactly one coordinate for the vehicle. The assignment
  \<open>vehicleTrackMap['__proto__'] = index\<close> stores no key, so the second run does not
  find the feature of the first and adds a second feature with the same point: the
  vehicle has two tracks of one coordinate each, and the repeated point is in the file.
\<close>

theorem proto_vehicle_gets_second_feature:
  "day_features (disk (snd (fetchAndCacheData ''20250101'' ''T2''
      (JObject [(''root'', JObject [(''VehicleData'',
         JArray [[(''Vehicle_No'', Str ''__proto__''), (''Latitude'', Str ''15.5''),
                  (''Longitude'', Str ''73.9'')]])])])
      (snd (fetchAndCacheData ''20250101'' ''T1''
         (JObject [(''root'', JObject [(''VehicleData'',
            JArray [[(''Vehicle_No'', Str ''__proto__''), (''Latitude'', Str ''15.5''),
                     (''Longitude'', Str ''73.9'')]])])])
         \<lparr> disk = Map.empty, output_file = None, parsedFireTrucks = [],
           debug_log = [] \<rparr>))))) ''20250101''
   = [\<lparr> Vehicle_No = ''__proto__'', Vehicle_Name = [], Branch = [], created = ''T1'',
         lastUpdated = ''T1'', coordinates = [(Fin (739 / 10), Fin (31 / 2))] \<rparr>,
      \<lparr> Vehicle_No = ''__proto__'', Vehicle_Name = [], Branch = [], created = ''T2'',
         lastUpdated = ''T2'', coordinates = [(Fin (739 / 10), Fin (31 / 2))] \<rparr>]"
proof -
  let ?r = "[(''Vehicle_No'', Str ''__proto__''), (''Latitude'', Str ''15.5''),
             (''Longitude'', Str ''73.9'')]"
  let ?n = "[(''Vehicle_No'', Str ''__proto__''), (''Latitude'', Num (Fin (31 / 2))),
             (''Longitude'', Num (Fin (739 / 10)))]"
  let ?j = "JObject [(''root'', JObject [(''VehicleData'', JArray [?r])])]"
  let ?w0 = "\<lparr> disk = Map.empty, output_file = None, parsedFireTrucks = [], debug_log = [] \<rparr>"
  let ?f = "\<lambda>now. \<lparr> Vehicle_No = ''__proto__'', Vehicle_Name = [], Branch = [], created = now,
         lastUpdated = now, coordinates = [(Fin (739 / 10), Fin (31 / 2))] \<rparr>"
  let ?fs1 = "[getGpxFilename ''20250101'' \<mapsto>
                 Tracks ((fresh_tracks ''20250101'')\<lparr> features := [?f ''T1''],
                    md_lastUpdated := Some ''T1'', md_count := Some 1 \<rparr>)]"
  have loc: "locate_rows ?j = JArray [?r]"
    by (simp add: locate_rows_def)
  have num: "numeric_coordinates ?r = ?n"
    by (simp add: numeric_coordinates_def numeric_field_def getp_def set_prop_def pf_samples)
  have val: "has_valid_coordinates ?n"
    by (simp add: has_valid_coordinates_def getp_def isValid_Num in_lat_def in_lng_def)
  have u1: "updateDailyGpxTracks ''20250101'' ''T1'' [?n] Map.empty
           = (Some (getGpxFilename ''20250101''), ?fs1,
              [CreatingNew ''20250101'', UpdatedTracks 1])"
    by (simp add: updateDailyGpxTracks_def load_tracks_def fresh_tracks_def update_truck_def
          map_assign_def str_field_def getp_def isValidCoordinate_def Let_def)
  have f1: "disk (snd (fetchAndCacheData ''20250101'' ''T1'' ?j ?w0)) = ?fs1"
    by (simp add: fetchAndCacheData_def loc num val u1 Let_def)
  have u2: "day_features (fst (snd (updateDailyGpxTracks ''20250101'' ''T2'' [?n] ?fs1)))
              ''20250101'' = [?f ''T1'', ?f ''T2'']"
    by (simp add: day_features_def updateDailyGpxTracks_def load_tracks_def fresh_tracks_def
          update_truck_def map_assign_def str_field_def getp_def isValidCoordinate_def Let_def)
  have "disk (snd (fetchAndCacheData ''20250101'' ''T2'' ?j w))
        = fst (snd (updateDailyGpxTracks ''20250101'' ''T2'' [?n] (disk w)))" for w
    by (simp add: fetchAndCacheData_def loc num val Let_def split: prod.splits)
  then show ?thesis
    using f1 u2 by simp
qed


text \<open>
  Claim C8. When the file of the day does not parse, the Accumulator logs the failure
  and goes on from a fresh collection of type FeatureCollection with the metadata
  \<open>date\<close>, \<open>source\<close> and \<open>description\<close> and no features, as for an absent
  file: it returns what it returns for an absent file and writes the same file (on an
  exception it writes nothing), with the same log but for its first line. The run is
  not ended by it: \<open>fetchAndCacheData\<close> returns its valid rows.
\<close>

theorem corrupt_track_file_starts_fresh:
  assumes "fs (getGpxFilename today) = Some Unparseable"
  shows "load_tracks today fs
           = (Some \<lparr> track_type = ''FeatureCollection'', date = today,
                     track_source = source_label,
                     description = ''Daily GPS tracks of fire trucks'',
                     md_lastUpdated = None, md_count = None, features = [] \<rparr>,
              ErrorReadingExisting)
       \<and> updateDailyGpxTracks today now trucks fs =
           (case updateDailyGpxTracks today now trucks (fs(getGpxFilename today := None)) of
              (None, f, evs) \<Rightarrow> (None, fs, ErrorReadingExisting # tl evs)
            | (Some p, f, evs) \<Rightarrow> (Some p, f, ErrorReadingExisting # tl evs))
       \<and> fst (fetchAndCacheData today now (JArray rows0)
                 \<lparr> disk = fs, output_file = out, parsedFireTrucks = parsed, debug_log = lg \<rparr>)
           = Some (filter has_valid_coordinates (map numeric_coordinates rows0))"
proof -
  have "load_tracks today fs = (Some (fresh_tracks today), ErrorReadingExisting)"
    using assms by (simp add: load_tracks_def)
  moreover have "fst (fetchAndCacheData today now (JArray rows0)
                 \<lparr> disk = fs, output_file = out, parsedFireTrucks = parsed, debug_log = lg \<rparr>)
           = Some (filter has_valid_coordinates (map numeric_coordinates rows0))"
    by (simp add: fetchAndCacheData_def locate_rows_def Let_def split: prod.splits)
  ultimately show ?thesis
    using upd_corrupt_as_absent[of fs today now trucks, OF assms] by (simp add: fresh_tracks_def)
qed

theorem corrupt_track_file_starts_fresh_witness:
  "[getGpxFilename ''20250101'' \<mapsto> Unparseable] (getGpxFilename ''20250101'') = Some Unparseable
   \<and> updateDailyGpxTracks ''20250101'' ''T1''
        [[(''Vehicle_No'', Str ''V1''), (''Latitude'', Num (Fin (31 / 2))),
          (''Longitude'', Num (Fin (739 / 10)))]]
        [getGpxFilename ''20250101'' \<mapsto> Unparseable]
      = (Some (getGpxFilename ''20250101''),
         [getGpxFilename ''20250101'' \<mapsto>
            Tracks \<lparr> track_type = ''FeatureCollection'', date = ''20250101'',
                     track_source = source_label,
                     description = ''Daily GPS tracks of fire trucks'',
                     md_lastUpdated = Some ''T1'', md_count = Some 1,
                     features = [\<lparr> Vehicle_No = ''V1'', Vehicle_Name = [], Branch = [],
                                    created = ''T1'', lastUpdated = ''T1'',
                                    coordinates = [(Fin (739 / 10), Fin (31 / 2))] \<rparr>] \<rparr>],
         [ErrorReadingExisting, UpdatedTracks 1])"
proof -
  let ?fs = "[getGpxFilename ''20250101'' \<mapsto> Unparseable]"
  let ?t = "[(''Vehicle_No'', Str ''V1''), (''Latitude'', Num (Fin (31 / 2))),
             (''Longitude'', Num (Fin (739 / 10)))]"
  have h: "?fs (getGpxFilename ''20250101'') = Some Unparseable" by simp
  have a: "updateDailyGpxTracks ''20250101'' ''T1'' [?t] Map.empty
      = (Some (getGpxFilename ''20250101''),
         [getGpxFilename ''20250101'' \<mapsto>
            Tracks \<lparr> track_type = ''FeatureCollection'', date = ''20250101'',
                     track_source = source_label,
                     description = ''Daily GPS tracks of fire trucks'',
                     md_lastUpdated = Some ''T1'', md_count = Some 1,
                     features = [\<lparr> Vehicle_No = ''V1'', Vehicle_Name = [], Branch = [],
                                    created = ''T1'', lastUpdated = ''T1'',
                                    coordinates = [(Fin (739 / 10), Fin (31 / 2))] \<rparr>] \<rparr>],
         [CreatingNew ''20250101'', UpdatedTracks 1])"
    by (simp add: updateDailyGpxTracks_def load_tracks_def fresh_tracks_def update_truck_def
          map_assign_def str_field_def getp_def isValidCoordinate_def Let_def)
  from corrupt_track_file_starts_fresh[of ?fs "''20250101''" "''T1''" "[?t]", OF h] h show ?thesis
    by (simp add: a)
qed


subsection \<open>The range check on the way to the files\<close>

text \<open>
  What \<open>fetchAndCacheData\<close> itself writes has passed the range check: when the points of
  the day's tracks pass it before the call, they pass it after, and every feature of the
  snapshot has a pair of numbers that passes it.
\<close>

lemma map_of_update_own:
  "map_of (update_own k v r) k' = (if k' = k \<and> map_of r k \<noteq> None then Some v else map_of r k')"
  by (induction r) auto

lemma getp_set_own:
  "k \<noteq> ''__proto__'' \<Longrightarrow> map_of r k \<noteq> None \<Longrightarrow>
   getp (set_prop r k v) k' = (if k' = k then v else getp r k')"
  by (simp add: getp_def set_prop_def map_of_update_own)

lemma truthy_present: "truthy (getp r k) \<Longrightarrow> map_of r k \<noteq> None"
  by (auto simp: getp_def split: option.splits)

lemma getp_numeric_field:
  "k \<noteq> ''__proto__'' \<Longrightarrow>
   getp (numeric_field k r) k' =
     (if k' = k \<and> truthy (getp r k) then Num (parseFloat (getp r k)) else getp r k')"
  by (auto simp: numeric_field_def getp_set_own truthy_present)

lemma valid_after_numeric:
  assumes "has_valid_coordinates (numeric_coordinates r)"
  shows "point_in_box (parseFloat (getp (numeric_coordinates r) ''Longitude''),
                       parseFloat (getp (numeric_coordinates r) ''Latitude''))
       \<and> getp (numeric_coordinates r) ''Longitude''
           = Num (parseFloat (getp (numeric_coordinates r) ''Longitude''))
       \<and> getp (numeric_coordinates r) ''Latitude''
           = Num (parseFloat (getp (numeric_coordinates r) ''Latitude''))"
proof -
  have la: "getp (numeric_coordinates r) ''Latitude''
            = (if truthy (getp r ''Latitude'') then Num (parseFloat (getp r ''Latitude''))
               else getp r ''Latitude'')"
    by (simp add: numeric_coordinates_def getp_numeric_field)
  have lo: "getp (numeric_coordinates r) ''Longitude''
            = (if truthy (getp r ''Longitude'') then Num (parseFloat (getp r ''Longitude''))
               else getp r ''Longitude'')"
    by (simp add: numeric_coordinates_def getp_numeric_field)
  from assms have v: "isValidGoaCoordinate (getp (numeric_coordinates r) ''Latitude'') Lat"
    "isValidGoaCoordinate (getp (numeric_coordinates r) ''Longitude'') Lng"
    by (simp_all add: has_valid_coordinates_def)
  from v(1) have tla: "truthy (getp r ''Latitude'')"
    unfolding la by (auto simp: isValidGoaCoordinate_def split: if_splits)
  from v(2) have tlo: "truthy (getp r ''Longitude'')"
    unfolding lo by (auto simp: isValidGoaCoordinate_def split: if_splits)
  from v tla tlo show ?thesis
    by (simp add: la lo isValid_Num point_in_box_def)
qed

lemma list_all_update:
  "list_all P xs \<Longrightarrow> P y \<Longrightarrow> list_all P (xs[i := y])"
  by (induction xs arbitrary: i) (auto split: nat.splits)

lemma update_truck_in_box:
  assumes "update_truck now st truck = Some st'" and "tracks_in_box (st_features st)"
    and "point_in_box (parseFloat (getp truck ''Longitude''), parseFloat (getp truck ''Latitude''))"
  shows "tracks_in_box (st_features st')"
proof -
  let ?p = "(parseFloat (getp truck ''Longitude''), parseFloat (getp truck ''Latitude''))"
  let ?v = "str_field truck ''Vehicle_No''"
  let ?ok = "\<lambda>f. list_all point_in_box (coordinates f)"
  show ?thesis
  proof (cases "?v = [] \<or> \<not> isValidCoordinate (fst ?p) \<or> \<not> isValidCoordinate (snd ?p)")
    case True
    with assms(1,2) show ?thesis by (auto simp: update_truck_def Let_def)
  next
    case valid: False
    show ?thesis
    proof (cases "vehicleTrackMap st ?v")
      case None
      with valid assms(1) have
        "\<exists>f. st_features st' = st_features st @ [f] \<and> coordinates f = [?p]"
        by (auto simp: update_truck_def Let_def split: if_splits)
      with assms(2,3) show ?thesis by (auto simp: tracks_in_box_def)
    next
      case (Some i)
      let ?old = "coordinates (st_features st ! i)"
      from Some valid assms(1) have i: "i < length (st_features st)"
        by (auto simp: update_truck_def Let_def split: if_splits)
      from Some valid i assms(1) have
        "st' = st \<or> (\<exists>f. st_features st' = (st_features st)[i := f] \<and> coordinates f = ?old @ [?p])"
        by (auto simp: update_truck_def Let_def split: if_splits)
      moreover from assms(2) i have "?ok (st_features st ! i)"
        by (simp add: tracks_in_box_def list_all_length)
      ultimately show ?thesis
        using assms(2,3) by (auto simp: tracks_in_box_def intro!: list_all_update)
    qed
  qed
qed

lemma update_trucks_in_box:
  "update_trucks now st trucks = Some st' \<Longrightarrow> tracks_in_box (st_features st)
   \<Longrightarrow> \<forall>truck \<in> set trucks.
         point_in_box (parseFloat (getp truck ''Longitude''), parseFloat (getp truck ''Latitude''))
   \<Longrightarrow> tracks_in_box (st_features st')"
proof (induction trucks arbitrary: st)
  case Nil
  then show ?case by simp
next
  case (Cons truck trucks)
  then show ?case
    by (auto split: option.splits dest: update_truck_in_box)
qed

lemma fetch_keeps_box:
  assumes "tracks_in_box (day_features (disk w) today)"
  shows "tracks_in_box (day_features (disk (snd (fetchAndCacheData today now jsonData w))) today)
       \<and> (\<forall>out. output_file (snd (fetchAndCacheData today now jsonData w)) = Some out
             \<and> fst (fetchAndCacheData today now jsonData w) \<noteq> None \<longrightarrow>
            (\<forall>f \<in> set (snap_features out).
               \<exists>lo la. point f = (Num lo, Num la) \<and> point_in_box (lo, la)))"
proof (cases "locate_rows jsonData")
  case (JArray rows0)
  let ?valid = "filter has_valid_coordinates (map numeric_coordinates rows0)"
  have pts: "\<forall>truck \<in> set ?valid.
      point_in_box (parseFloat (getp truck ''Longitude''), parseFloat (getp truck ''Latitude''))
      \<and> getp truck ''Longitude'' = Num (parseFloat (getp truck ''Longitude''))
      \<and> getp truck ''Latitude'' = Num (parseFloat (getp truck ''Latitude''))"
    using valid_after_numeric by auto
  have d: "disk (snd (fetchAndCacheData today now jsonData w))
           = fst (snd (updateDailyGpxTracks today now ?valid (disk w)))"
    and o: "output_file (snd (fetchAndCacheData today now jsonData w))
           = Some (make_snapshot now ?valid)"
    using JArray by (simp_all add: fetchAndCacheData_def Let_def split: prod.splits)
  have "tracks_in_box (day_features (fst (snd (updateDailyGpxTracks today now ?valid (disk w)))) today)"
  proof (cases "fst (updateDailyGpxTracks today now ?valid (disk w))")
    case None
    then have "fst (snd (updateDailyGpxTracks today now ?valid (disk w))) = disk w"
      by (auto simp: updateDailyGpxTracks_def split: prod.splits option.splits)
    with assms show ?thesis by simp
  next
    case (Some path)
    then obtain t ev st where
      l: "load_tracks today (disk w) = (Some t, ev)"
      and u: "update_trucks now \<lparr> st_features = features t,
                vehicleTrackMap = build_map (features t) 0 Map.empty \<rparr> ?valid = Some st"
      and r: "day_features (fst (snd (updateDailyGpxTracks today now ?valid (disk w)))) today
              = st_features st"
      by (auto simp: updateDailyGpxTracks_def day_features_def split: prod.splits option.splits)
    from l assms have "tracks_in_box (features t)"
      by (auto simp: load_tracks_def day_features_def fresh_tracks_def tracks_in_box_def
          split: option.splits file_content.splits)
    from update_trucks_in_box[OF u] this pts r show ?thesis by simp
  qed
  moreover have "\<forall>f \<in> set (snap_features (make_snapshot now ?valid)).
               \<exists>lo la. point f = (Num lo, Num la) \<and> point_in_box (lo, la)"
    using pts by (auto simp: make_snapshot_def to_feature_def)
  ultimately show ?thesis using d o by simp
qed (simp_all add: fetchAndCacheData_def assms)


lemma pf_mumbai:
  "parseFloat_str ''19.2751911'' = Fin (192751911 / 10000000)"
  "parseFloat_str ''72.9126444'' = Fin (182281611 / 2500000)"
  by (simp_all add: str_eval)

text \<open>
  Claim C2 at a failing input. The main script runs \<open>fetchAndCacheData\<close> and then
  \<open>createDailyTracks\<close>. For the response below, whose one record lies outside the
  bounding box, the snapshot has no feature, yet \<open>createDailyTracks\<close> takes the
  unfiltered \<open>parsedFireTrucks\<close> and the point is written to the track file of the
  day.
\<close>

theorem main_run_persists_unvalidated_point:
  "fst (main_run ''20250101'' ''T1''
          (JObject [(''root'', JObject [(''VehicleData'',
             JArray [[(''Vehicle_No'', Str ''XT123''), (''Latitude'', Str ''19.2751911''),
                      (''Longitude'', Str ''72.9126444'')]])])])
          \<lparr> disk = Map.empty, output_file = None, parsedFireTrucks = [], debug_log = [] \<rparr>)
   \<and> output_file (snd (main_run ''20250101'' ''T1''
          (JObject [(''root'', JObject [(''VehicleData'',
             JArray [[(''Vehicle_No'', Str ''XT123''), (''Latitude'', Str ''19.2751911''),
                      (''Longitude'', Str ''72.9126444'')]])])])
          \<lparr> disk = Map.empty, output_file = None, parsedFireTrucks = [], debug_log = [] \<rparr>))
       = Some \<lparr> snap_type = ''FeatureCollection'', timestamp = ''T1'',
                snap_source = source_label, snap_count = 0, snap_features = [] \<rparr>
   \<and> day_features (disk (snd (main_run ''20250101'' ''T1''
          (JObject [(''root'', JObject [(''VehicleData'',
             JArray [[(''Vehicle_No'', Str ''XT123''), (''Latitude'', Str ''19.2751911''),
                      (''Longitude'', Str ''72.9126444'')]])])])
          \<lparr> disk = Map.empty, output_file = None, parsedFireTrucks = [], debug_log = [] \<rparr>)))
        ''20250101''
       = [\<lparr> Vehicle_No = ''XT123'', Vehicle_Name = [], Branch = [], created = ''T1'',
             lastUpdated = ''T1'',
             coordinates = [(Fin (182281611 / 2500000), Fin (192751911 / 10000000))] \<rparr>]
   \<and> \<not> num_in_range (Fin (192751911 / 10000000)) Lat
   \<and> \<not> num_in_range (Fin (182281611 / 2500000)) Lng"
proof -
  let ?r = "[(''Vehicle_No'', Str ''XT123''), (''Latitude'', Str ''19.2751911''),
             (''Longitude'', Str ''72.9126444'')]"
  let ?n = "[(''Vehicle_No'', Str ''XT123''), (''Latitude'', Num (Fin (192751911 / 10000000))),
             (''Longitude'', Num (Fin (182281611 / 2500000)))]"
  let ?j = "JObject [(''root'', JObject [(''VehicleData'', JArray [?r])])]"
  let ?w0 = "\<lparr> disk = Map.empty, output_file = None, parsedFireTrucks = [], debug_log = [] \<rparr>"
  have loc: "locate_rows ?j = JArray [?r]"
    by (simp add: locate_rows_def)
  have num: "numeric_coordinates ?r = ?n"
    by (simp add: numeric_coordinates_def numeric_field_def getp_def set_prop_def pf_mumbai)
  have inv: "\<not> has_valid_coordinates ?n"
    by (simp add: has_valid_coordinates_def getp_def isValid_Num in_lat_def)
  have f: "fetchAndCacheData ''20250101'' ''T1'' ?j ?w0
           = (Some [], \<lparr> disk = [getGpxFilename ''20250101'' \<mapsto>
                 Tracks ((fresh_tracks ''20250101'')\<lparr> md_lastUpdated := Some ''T1'',
                            md_count := Some 0 \<rparr>)],
               output_file = Some (make_snapshot ''T1'' []), parsedFireTrucks = [?n],
               debug_log = [CreatingNew ''20250101'', UpdatedTracks 0] \<rparr>)"
    by (simp add: fetchAndCacheData_def loc num inv updateDailyGpxTracks_def load_tracks_def
          fresh_tracks_def)
  have c: "createDailyTracks ''20250101'' ''T1'' ?j
             \<lparr> disk = [getGpxFilename ''20250101'' \<mapsto>
                 Tracks ((fresh_tracks ''20250101'')\<lparr> md_lastUpdated := Some ''T1'',
                            md_count := Some 0 \<rparr>)],
               output_file = Some (make_snapshot ''T1'' []), parsedFireTrucks = [?n],
               debug_log = [CreatingNew ''20250101'', UpdatedTracks 0] \<rparr>
           = (True, \<lparr> disk = [getGpxFilename ''20250101'' \<mapsto>
                 Tracks ((fresh_tracks ''20250101'')\<lparr> features :=
                    [\<lparr> Vehicle_No = ''XT123'', Vehicle_Name = [], Branch = [], created = ''T1'',
                        lastUpdated = ''T1'',
                        coordinates = [(Fin (182281611 / 2500000), Fin (192751911 / 10000000))] \<rparr>],
                    md_lastUpdated := Some ''T1'', md_count := Some 1 \<rparr>)],
               output_file = Some (make_snapshot ''T1'' []), parsedFireTrucks = [?n],
               debug_log = [CreatingNew ''20250101'', UpdatedTracks 0,
                            LoadedExisting ''20250101'', UpdatedTracks 1] \<rparr>)"
    by (simp add: createDailyTracks_def updateDailyGpxTracks_def load_tracks_def fresh_tracks_def
          update_truck_def map_assign_def str_field_def getp_def isValidCoordinate_def Let_def)
  have m: "main_run ''20250101'' ''T1'' ?j ?w0
           = (True, \<lparr> disk = [getGpxFilename ''20250101'' \<mapsto>
                 Tracks ((fresh_tracks ''20250101'')\<lparr> features :=
                    [\<lparr> Vehicle_No = ''XT123'', Vehicle_Name = [], Branch = [], created = ''T1'',
                        lastUpdated = ''T1'',
                        coordinates = [(Fin (182281611 / 2500000), Fin (192751911 / 10000000))] \<rparr>],
                    md_lastUpdated := Some ''T1'', md_count := Some 1 \<rparr>)],
               output_file = Some (make_snapshot ''T1'' []), parsedFireTrucks = [?n],
               debug_log = [CreatingNew ''20250101'', UpdatedTracks 0,
                            LoadedExisting ''20250101'', UpdatedTracks 1] \<rparr>)"
    unfolding main_run_def f by (simp add: c)
  show ?thesis
    unfolding m by (simp add: make_snapshot_def day_features_def in_lat_def in_lng_def)
qed


end
